theory Spec2Isabelle
  imports Complex_Main
begin

section \<open>JavaScript values\<close>

text \<open>
  The proxy is a JavaScript module (\<^verbatim>\<open>netlify/functions/api.js\<close>). Its handlers work on
  query strings, on JSON documents returned by upstream services and on numbers. Numbers
  are modelled as exact reals extended by \<^verbatim>\<open>NaN\<close> and the two infinities: the special
  values propagate exactly as in the language and a result beyond the range of binary64 is
  an infinity, while the rounding of binary64 arithmetic (and with it underflow and the
  sign of zero) is not represented. Strings are sequences of code units below 256.
\<close>

datatype jsnum = Fin real | NaN | PosInf | NegInf

datatype jsval =
    JUndefined
  | JNull
  | JBool bool
  | JNum jsnum
  | JStr string
  | JArr "jsval list"
  | JObj "(string \<times> jsval) list"
  | JFun

text \<open>
  A thrown value is either an \<^verbatim>\<open>Error\<close> object (of any subclass), of which only the
  message matters here, or any other value.
\<close>

datatype thrown = Exception string | Value jsval

definition nullish :: "jsval \<Rightarrow> bool" where
  "nullish v = (v = JUndefined \<or> v = JNull)"

definition num_truthy :: "jsnum \<Rightarrow> bool" where
  "num_truthy n = (case n of Fin x \<Rightarrow> x \<noteq> 0 | NaN \<Rightarrow> False | PosInf \<Rightarrow> True | NegInf \<Rightarrow> True)"

fun truthy :: "jsval \<Rightarrow> bool" where
  "truthy JUndefined = False"
| "truthy JNull = False"
| "truthy (JBool b) = b"
| "truthy (JNum n) = num_truthy n"
| "truthy (JStr s) = (s \<noteq> [])"
| "truthy (JArr xs) = True"
| "truthy (JObj kvs) = True"
| "truthy JFun = True"

text \<open>
  Property read \<^verbatim>\<open>v.k\<close> on a value that is neither \<^verbatim>\<open>undefined\<close> nor \<^verbatim>\<open>null\<close>. Objects
  are the own properties of a parsed JSON object. Of the inherited properties only those
  the handlers can reach are given: \<^verbatim>\<open>length\<close> of arrays and strings and the array method
  \<^verbatim>\<open>values\<close>; every other name the handlers read is absent from the prototypes.
\<close>

fun get_prop :: "jsval \<Rightarrow> string \<Rightarrow> jsval" where
  "get_prop (JObj kvs) k = (case map_of kvs k of Some v \<Rightarrow> v | None \<Rightarrow> JUndefined)"
| "get_prop (JArr xs) k =
     (if k = ''length'' then JNum (Fin (real (length xs)))
      else if k = ''values'' then JFun else JUndefined)"
| "get_prop (JStr s) k =
     (if k = ''length'' then JNum (Fin (real (length s))) else JUndefined)"
| "get_prop v k = JUndefined"

text \<open>\<^verbatim>\<open>v.k\<close>: a \<^verbatim>\<open>TypeError\<close> on \<^verbatim>\<open>undefined\<close> and \<^verbatim>\<open>null\<close>.\<close>

definition read_prop :: "jsval \<Rightarrow> string \<Rightarrow> thrown + jsval" where
  "read_prop v k =
     (if nullish v then Inl (Exception (''Cannot read properties of undefined (reading '' @ k @ '')''))
      else Inr (get_prop v k))"

text \<open>\<^verbatim>\<open>v?.k\<close>\<close>

definition opt_prop :: "jsval \<Rightarrow> string \<Rightarrow> jsval" where
  "opt_prop v k = (if nullish v then JUndefined else get_prop v k)"

section \<open>Numbers\<close>

definition js_neg :: "jsnum \<Rightarrow> jsnum" where
  "js_neg n = (case n of Fin x \<Rightarrow> Fin (- x) | NaN \<Rightarrow> NaN | PosInf \<Rightarrow> NegInf | NegInf \<Rightarrow> PosInf)"

definition js_abs :: "jsnum \<Rightarrow> jsnum" where
  "js_abs n = (case n of Fin x \<Rightarrow> Fin \<bar>x\<bar> | NaN \<Rightarrow> NaN | PosInf \<Rightarrow> PosInf | NegInf \<Rightarrow> PosInf)"

definition js_sin :: "jsnum \<Rightarrow> jsnum" where
  "js_sin n = (case n of Fin x \<Rightarrow> Fin (sin x) | NaN \<Rightarrow> NaN | PosInf \<Rightarrow> NaN | NegInf \<Rightarrow> NaN)"

text \<open>The sign of a number that is not \<^verbatim>\<open>NaN\<close>: \<open>-1\<close>, \<open>0\<close> or \<open>1\<close>.\<close>

definition js_sign :: "jsnum \<Rightarrow> int" where
  "js_sign n =
     (case n of Fin x \<Rightarrow> (if x < 0 then - 1 else if x = 0 then 0 else 1)
      | NaN \<Rightarrow> 0 | PosInf \<Rightarrow> 1 | NegInf \<Rightarrow> - 1)"

text \<open>
  A finite result beyond the range of binary64 is an infinity: the largest number of the
  format is \<open>2^1024 - 2^971\<close>, and a result rounds to infinity from half a step above it.
\<close>

definition overflow_at :: real where
  "overflow_at = 2 ^ 1024 - 2 ^ 970"

definition fin :: "real \<Rightarrow> jsnum" where
  "fin x = (if overflow_at \<le> x then PosInf else if x \<le> - overflow_at then NegInf else Fin x)"

definition js_add :: "jsnum \<Rightarrow> jsnum \<Rightarrow> jsnum" where
  "js_add a b =
     (case (a, b) of
        (NaN, _) \<Rightarrow> NaN
      | (_, NaN) \<Rightarrow> NaN
      | (Fin x, Fin y) \<Rightarrow> fin (x + y)
      | (PosInf, NegInf) \<Rightarrow> NaN
      | (NegInf, PosInf) \<Rightarrow> NaN
      | (PosInf, _) \<Rightarrow> PosInf
      | (_, PosInf) \<Rightarrow> PosInf
      | (NegInf, _) \<Rightarrow> NegInf
      | (_, NegInf) \<Rightarrow> NegInf)"

definition js_mul :: "jsnum \<Rightarrow> jsnum \<Rightarrow> jsnum" where
  "js_mul a b =
     (case (a, b) of
        (NaN, _) \<Rightarrow> NaN
      | (_, NaN) \<Rightarrow> NaN
      | (Fin x, Fin y) \<Rightarrow> fin (x * y)
      | _ \<Rightarrow>
          (if js_sign a * js_sign b = 0 then NaN
           else if js_sign a * js_sign b > 0 then PosInf else NegInf))"

definition js_div :: "jsnum \<Rightarrow> jsnum \<Rightarrow> jsnum" where
  "js_div a b =
     (case (a, b) of
        (NaN, _) \<Rightarrow> NaN
      | (_, NaN) \<Rightarrow> NaN
      | (Fin x, Fin y) \<Rightarrow>
          (if y \<noteq> 0 then fin (x / y)
           else if x = 0 then NaN else if x > 0 then PosInf else NegInf)
      | (Fin x, _) \<Rightarrow> Fin 0
      | (_, Fin y) \<Rightarrow> (if js_sign a * (if y < 0 then - 1 else 1) > 0 then PosInf else NegInf)
      | _ \<Rightarrow> NaN)"

text \<open>
  The remainder \<^verbatim>\<open>a % n\<close>: the quotient is truncated towards zero, so the result has the
  sign of the dividend.
\<close>

definition trunc :: "real \<Rightarrow> int" where
  "trunc x = (if x < 0 then \<lceil>x\<rceil> else \<lfloor>x\<rfloor>)"

definition js_rem :: "jsnum \<Rightarrow> jsnum \<Rightarrow> jsnum" where
  "js_rem a n =
     (case (a, n) of
        (NaN, _) \<Rightarrow> NaN
      | (_, NaN) \<Rightarrow> NaN
      | (PosInf, _) \<Rightarrow> NaN
      | (NegInf, _) \<Rightarrow> NaN
      | (Fin x, Fin y) \<Rightarrow> (if y = 0 then NaN else Fin (x - y * real_of_int (trunc (x / y))))
      | (Fin x, _) \<Rightarrow> Fin x)"

text \<open>
  \<^verbatim>\<open>Number(x.toFixed(f))\<close>. \<^verbatim>\<open>toFixed\<close> prints the special values and the numbers from
  \<open>10^21\<close> on as \<^verbatim>\<open>String\<close> does, which \<^verbatim>\<open>Number\<close> reads back; below that it prints
  \<open>n / 10^f\<close> for the integer \<open>n\<close> nearest to \<open>x * 10^f\<close>, the larger one in a tie, after
  taking the sign off.
\<close>

definition to_fixed_number :: "nat \<Rightarrow> jsnum \<Rightarrow> jsnum" where
  "to_fixed_number f n =
     (case n of
        Fin x \<Rightarrow>
          (if \<bar>x\<bar> \<ge> 10 ^ 21 then Fin x
           else if x < 0 then Fin (- (real_of_int \<lfloor>(- x) * 10 ^ f + 1 / 2\<rfloor> / 10 ^ f))
           else Fin (real_of_int \<lfloor>x * 10 ^ f + 1 / 2\<rfloor> / 10 ^ f))
      | _ \<Rightarrow> n)"

section \<open>Strings and conversions\<close>

definition digit_char :: "nat \<Rightarrow> char" where
  "digit_char n = char_of (48 + n)"

function show_nat :: "nat \<Rightarrow> string" where
  "show_nat n = (if n < 10 then [digit_char n] else show_nat (n div 10) @ [digit_char (n mod 10)])"
  by pat_completeness auto
termination
  by (relation "measure id") auto

declare show_nat.simps [simp del]

definition is_ws :: "char \<Rightarrow> bool" where
  "is_ws c = ((of_char c :: nat) \<in> {9, 10, 11, 12, 13, 32, 160})"

definition trim :: "string \<Rightarrow> string" where
  "trim s = rev (dropWhile is_ws (rev (dropWhile is_ws s)))"

text \<open>The value of a digit in a base up to sixteen, when the character is one.\<close>

definition digit_value :: "nat \<Rightarrow> char \<Rightarrow> nat option" where
  "digit_value base c =
     (let k = (of_char c :: nat);
          v = (if 48 \<le> k \<and> k \<le> 57 then Some (k - 48)
               else if 97 \<le> k \<and> k \<le> 102 then Some (k - 87)
               else if 65 \<le> k \<and> k \<le> 70 then Some (k - 55)
               else None)
      in case v of None \<Rightarrow> None | Some d \<Rightarrow> (if d < base then Some d else None))"

definition is_digit :: "char \<Rightarrow> bool" where
  "is_digit c = (digit_value 10 c \<noteq> None)"

text \<open>A non-empty run of digits of the base, read as a number.\<close>

fun digits_from :: "nat \<Rightarrow> nat \<Rightarrow> string \<Rightarrow> nat option" where
  "digits_from base acc [] = Some acc"
| "digits_from base acc (c # cs) =
     (case digit_value base c of
        None \<Rightarrow> None
      | Some d \<Rightarrow> digits_from base (acc * base + d) cs)"

definition digits :: "nat \<Rightarrow> string \<Rightarrow> nat option" where
  "digits base s = (if s = [] then None else digits_from base 0 s)"

text \<open>\<^verbatim>\<open>0x\<close>, \<^verbatim>\<open>0o\<close> and \<^verbatim>\<open>0b\<close> literals, which take no sign.\<close>

definition non_decimal :: "string \<Rightarrow> nat option" where
  "non_decimal s =
     (case s of
        z # x # ds \<Rightarrow>
          (if z \<noteq> CHR ''0'' then None
           else if x = CHR ''x'' \<or> x = CHR ''X'' then digits 16 ds
           else if x = CHR ''o'' \<or> x = CHR ''O'' then digits 8 ds
           else if x = CHR ''b'' \<or> x = CHR ''B'' then digits 2 ds
           else None)
      | _ \<Rightarrow> None)"

text \<open>The exponent part, absent or \<^verbatim>\<open>e\<close> with a signed run of digits.\<close>

definition exponent_part :: "string \<Rightarrow> int option" where
  "exponent_part s =
     (case s of
        [] \<Rightarrow> Some 0
      | c # cs \<Rightarrow>
          (if c = CHR ''e'' \<or> c = CHR ''E'' then
             (case cs of
                [] \<Rightarrow> None
              | d # ds \<Rightarrow>
                  (if d = CHR ''+'' then map_option int (digits 10 ds)
                   else if d = CHR ''-'' then map_option (\<lambda>n. - int n) (digits 10 ds)
                   else map_option int (digits 10 cs)))
           else None))"

definition scale10 :: "nat \<Rightarrow> int \<Rightarrow> real" where
  "scale10 n e = (if e \<ge> 0 then real n * 10 ^ nat e else real n / 10 ^ nat (- e))"

definition unsigned_decimal :: "string \<Rightarrow> jsnum" where
  "unsigned_decimal s =
     (if s = ''Infinity'' then PosInf
      else
        (let ip = takeWhile is_digit s;
             r1 = dropWhile is_digit s;
             dotted = (r1 \<noteq> [] \<and> hd r1 = CHR ''.'');
             fp = (if dotted then takeWhile is_digit (tl r1) else []);
             r2 = (if dotted then dropWhile is_digit (tl r1) else r1)
         in if ip = [] \<and> fp = [] then NaN
            else
              (case (digits 10 (ip @ fp), exponent_part r2) of
                 (Some n, Some e) \<Rightarrow> fin (scale10 n (e - int (length fp)))
               | _ \<Rightarrow> NaN)))"

definition str_decimal :: "string \<Rightarrow> jsnum" where
  "str_decimal s =
     (case s of
        [] \<Rightarrow> NaN
      | c # cs \<Rightarrow>
          (if c = CHR ''+'' then unsigned_decimal cs
           else if c = CHR ''-'' then js_neg (unsigned_decimal cs)
           else unsigned_decimal s))"

text \<open>
  \<^verbatim>\<open>Number(s)\<close> for a string: white space around the literal is dropped (\<open>is_ws\<close> is the
  white space of the language among the code units below 256: tab, line feed, vertical
  tab, form feed, carriage return, space and no-break space), the empty string is zero,
  anything that is not a numeric literal is \<^verbatim>\<open>NaN\<close>.
\<close>

definition string_to_number :: "string \<Rightarrow> jsnum" where
  "string_to_number s =
     (let t = trim s
      in if t = [] then Fin 0
         else (case non_decimal t of Some n \<Rightarrow> fin (real n) | None \<Rightarrow> str_decimal t))"

text \<open>
  Converting an array or an object to a primitive calls its \<^verbatim>\<open>toString\<close>. A parsed JSON
  object that has a key \<^verbatim>\<open>toString\<close> of its own hides the inherited method by a value
  that cannot be called, and the conversion throws.
\<close>

fun to_string_throws :: "jsval \<Rightarrow> bool" where
  "to_string_throws (JObj kvs) = (''toString'' \<in> set (map fst kvs))"
| "to_string_throws (JArr xs) = list_ex to_string_throws xs"
| "to_string_throws v = False"

text \<open>
  \<^verbatim>\<open>Number(String(v))\<close>, where \<^verbatim>\<open>String\<close> does not throw. An array prints its elements
  separated by commas, \<^verbatim>\<open>undefined\<close> and \<^verbatim>\<open>null\<close> as nothing; a number is read back as
  itself.
\<close>

fun text_number :: "jsval \<Rightarrow> jsnum" where
  "text_number (JNum n) = n"
| "text_number (JStr s) = string_to_number s"
| "text_number (JArr []) = Fin 0"
| "text_number (JArr [x]) = (if nullish x then Fin 0 else text_number x)"
| "text_number (JArr (x # y # zs)) = NaN"
| "text_number v = NaN"

text \<open>\<^verbatim>\<open>Number(v)\<close>\<close>

definition to_number :: "jsval \<Rightarrow> thrown + jsnum" where
  "to_number v =
     (case v of
        JUndefined \<Rightarrow> Inr NaN
      | JNull \<Rightarrow> Inr (Fin 0)
      | JBool b \<Rightarrow> Inr (Fin (if b then 1 else 0))
      | JNum n \<Rightarrow> Inr n
      | JStr s \<Rightarrow> Inr (string_to_number s)
      | _ \<Rightarrow>
          (if to_string_throws v then Inl (Exception ''Cannot convert object to primitive value'')
           else Inr (text_number v)))"

text \<open>
  \<^verbatim>\<open>v[i]\<close> for a number \<open>i\<close>: a \<^verbatim>\<open>TypeError\<close> on \<^verbatim>\<open>undefined\<close> and \<^verbatim>\<open>null\<close>, the element
  of an array, the character of a string, the property of that name of an object.
\<close>

definition index_at :: "jsval \<Rightarrow> nat \<Rightarrow> thrown + jsval" where
  "index_at v i =
     (case v of
        JUndefined \<Rightarrow> Inl (Exception (''Cannot read properties of undefined (reading '' @ show_nat i @ '')''))
      | JNull \<Rightarrow> Inl (Exception (''Cannot read properties of null (reading '' @ show_nat i @ '')''))
      | JArr xs \<Rightarrow> Inr (if i < length xs then xs ! i else JUndefined)
      | JStr s \<Rightarrow> Inr (if i < length s then JStr [s ! i] else JUndefined)
      | JObj kvs \<Rightarrow> Inr (get_prop v (show_nat i))
      | _ \<Rightarrow> Inr JUndefined)"

section \<open>The invocation adapter\<close>

text \<open>
  \<^verbatim>\<open>responseData\<close> starts as the empty string, \<^verbatim>\<open>send\<close> stores its argument as it is and
  \<^verbatim>\<open>json\<close> stores \<^verbatim>\<open>JSON.stringify(data)\<close>. The serialisation is kept symbolic:
  \<open>Stringified d\<close> stands for the text \<^verbatim>\<open>JSON.stringify(d)\<close>.
\<close>

datatype payload = Plain jsval | Stringified jsval

text \<open>An outbound request, by service and parameters (the parts of the fetched URL).\<close>

datatype outbound =
    SoilGrids string string
  | OpenMeteoArchive string string
  | Nominatim string
  | OpenWeather string string string

text \<open>
  The mutable state a request works on: the status and the data of the response (for the
  adapter's response object, the two variables it captures), the headers set on the
  response, and the log of outbound calls made so far.
\<close>

record world =
  statusCode :: nat
  responseData :: payload
  resHeaders :: "(string \<times> string) list"
  fetches :: "outbound list"

text \<open>
  A response object, as far as this module uses one. \<open>status_fn\<close> returns whether the call
  \<^verbatim>\<open>res.status(code)\<close> evaluates to the response object itself (so that a call can be
  chained to it) or to \<^verbatim>\<open>undefined\<close>. \<open>set_fn\<close> and \<open>setHeader_fn\<close> are the methods
  \<^verbatim>\<open>set\<close> and \<^verbatim>\<open>setHeader\<close>, when the object has them.
\<close>

record res_obj =
  status_fn :: "nat \<Rightarrow> world \<Rightarrow> bool \<times> world"
  json_fn :: "jsval \<Rightarrow> world \<Rightarrow> world"
  send_fn :: "jsval \<Rightarrow> world \<Rightarrow> world"
  set_fn :: "(string \<Rightarrow> string \<Rightarrow> world \<Rightarrow> world) option"
  setHeader_fn :: "(string \<Rightarrow> string \<Rightarrow> world \<Rightarrow> world) option"

text \<open>
  The object the adapter hands to the router (lines 197 to 199 and their three copies):
  it has the three methods \<^verbatim>\<open>status\<close>, \<^verbatim>\<open>json\<close> and \<^verbatim>\<open>send\<close> and no other, and
  \<^verbatim>\<open>status: (code) => { statusCode = code; }\<close> returns nothing.
\<close>

definition mock_res :: res_obj where
  "mock_res =
     \<lparr> status_fn = (\<lambda>code w. (False, w\<lparr>statusCode := code\<rparr>)),
       json_fn = (\<lambda>d w. w\<lparr>responseData := Stringified d\<rparr>),
       send_fn = (\<lambda>d w. w\<lparr>responseData := Plain d\<rparr>),
       set_fn = None,
       setHeader_fn = None \<rparr>"

text \<open>
  The response object of the web framework, which the middleware and the route callbacks
  are written for: \<^verbatim>\<open>status\<close> sets the status and returns the response, \<^verbatim>\<open>json\<close> sends
  the serialised value, \<^verbatim>\<open>send\<close> sends its argument, \<^verbatim>\<open>set\<close> and \<^verbatim>\<open>setHeader\<close> set a
  response header.
\<close>

definition express_res :: res_obj where
  "express_res =
     \<lparr> status_fn = (\<lambda>code w. (True, w\<lparr>statusCode := code\<rparr>)),
       json_fn = (\<lambda>d w. w\<lparr>responseData := Stringified d\<rparr>),
       send_fn = (\<lambda>d w. w\<lparr>responseData := Plain d\<rparr>),
       set_fn = Some (\<lambda>k v w. w\<lparr>resHeaders := (k, v) # filter (\<lambda>p. fst p \<noteq> k) (resHeaders w)\<rparr>),
       setHeader_fn =
         Some (\<lambda>k v w. w\<lparr>resHeaders := (k, v) # filter (\<lambda>p. fst p \<noteq> k) (resHeaders w)\<rparr>) \<rparr>"

record event =
  path :: string
  httpMethod :: string
  queryStringParameters :: "(string \<rightharpoonup> string) option"
  headers :: "(string \<times> string) list option"

record request =
  req_method :: string
  req_query :: "string \<rightharpoonup> string"
  req_path :: string
  req_headers :: "(string \<times> string) list"
  req_url :: string

datatype envelope =
  Envelope (env_statusCode: nat) (env_headers: "(string \<times> string) list") (env_body: payload)

text \<open>
  What an asynchronous function does in the end: it returns, it rejects with a thrown
  value, or it waits for ever on a promise nobody settles.
\<close>

datatype 'a completion = Returned 'a | Rejected thrown | Pending

text \<open>
  \<^verbatim>\<open>app._router.handle(req, res, next)\<close> belongs to the web framework. It is a parameter:
  given the request and the response object, a router changes the state through the
  response object and the handlers, and either calls \<^verbatim>\<open>next\<close> with some value (or throws
  it synchronously), or never calls \<^verbatim>\<open>next\<close>.
\<close>

type_synonym router = "request \<Rightarrow> res_obj \<Rightarrow> world \<Rightarrow> thrown option \<times> world"

text \<open>\<^verbatim>\<open>str.replace(pat, rep)\<close> with a string pattern: the first occurrence only.\<close>

fun replace_first :: "string \<Rightarrow> string \<Rightarrow> string \<Rightarrow> string" where
  "replace_first pat rep [] = (if pat = [] then rep else [])"
| "replace_first pat rep (c # cs) =
     (if take (length pat) (c # cs) = pat then rep @ drop (length pat) (c # cs)
      else c # replace_first pat rep cs)"

text \<open>\<^verbatim>\<open>error.message\<close> in the adapter's catch block.\<close>

definition message_of :: "thrown \<Rightarrow> thrown + jsval" where
  "message_of e =
     (case e of
        Exception m \<Rightarrow> Inr (JStr m)
      | Value v \<Rightarrow> read_prop v ''message'')"

definition cors_headers :: "(string \<times> string) list" where
  "cors_headers =
     [(''Access-Control-Allow-Origin'', ''*''),
      (''Access-Control-Allow-Headers'', ''Content-Type''),
      (''Access-Control-Allow-Methods'', ''GET, POST, PUT, DELETE, OPTIONS'')]"

text \<open>The final \<^verbatim>\<open>return { statusCode, headers, body: responseData }\<close>.\<close>

definition respond :: "(string \<times> string) list \<Rightarrow> world \<Rightarrow> envelope completion" where
  "respond hs w = Returned (Envelope (statusCode w) hs (responseData w))"

text \<open>
  \<^verbatim>\<open>await new Promise((resolve, reject) => { ...; app._router.handle({...req, url}, res, reject) })\<close>
  followed by the catch block. \<^verbatim>\<open>resolve\<close> is never called, so the promise is settled
  only by \<^verbatim>\<open>reject\<close>, that is by the router calling \<^verbatim>\<open>next\<close> or throwing. Whatever the
  response object captured before that is overwritten by the catch block.
\<close>

definition await_route ::
  "router \<Rightarrow> request \<Rightarrow> string \<Rightarrow> (string \<times> string) list \<Rightarrow> world \<Rightarrow> envelope completion" where
  "await_route rt req url hs w =
     (case rt (req\<lparr>req_url := url\<rparr>) mock_res w of
        (None, w') \<Rightarrow> Pending
      | (Some e, w') \<Rightarrow>
          (case message_of e of
             Inl t \<Rightarrow> Rejected t
           | Inr m \<Rightarrow>
               respond hs (w'\<lparr>statusCode := 500,
                             responseData := Stringified (JObj [(''error'', m)])\<rparr>)))"

text \<open>
  The request object of lines 169 to 174, with \<^verbatim>\<open>event.path.replace(...)\<close> as its path,
  and the variables \<^verbatim>\<open>responseData\<close> and \<^verbatim>\<open>statusCode\<close> as they are initialised.
\<close>

definition stripped_path :: "event \<Rightarrow> string" where
  "stripped_path ev = replace_first ''/.netlify/functions/api'' [] (path ev)"

definition mock_request :: "event \<Rightarrow> request" where
  "mock_request ev =
     \<lparr> req_method = httpMethod ev,
       req_query = (case queryStringParameters ev of None \<Rightarrow> Map.empty | Some q \<Rightarrow> q),
       req_path = stripped_path ev,
       req_headers = (case headers ev of None \<Rightarrow> [] | Some h \<Rightarrow> h),
       req_url = [] \<rparr>"

definition initial_world :: world where
  "initial_world =
     \<lparr> statusCode = 200, responseData = Plain (JStr []), resHeaders = [], fetches = [] \<rparr>"

text \<open>
  \<^verbatim>\<open>exports.handler\<close>. \<open>now\<close> is the text of \<^verbatim>\<open>new Date().toISOString()\<close> at the call.
  Inside each promise \<^verbatim>\<open>req.query\<close> is assigned the value it already has.
\<close>

definition handler :: "router \<Rightarrow> string \<Rightarrow> event \<Rightarrow> envelope completion" where
  "handler rt now ev =
     (let p = stripped_path ev;
          method = httpMethod ev;
          req = mock_request ev;
          w = initial_world;
          hs = cors_headers
      in if method = ''OPTIONS'' then Returned (Envelope 200 hs (Plain (JStr [])))
         else if p = ''/health'' then
           respond hs (w\<lparr>responseData :=
             Stringified (JObj [(''status'', JStr ''ok''), (''timestamp'', JStr now)])\<rparr>)
         else if p = ''/soil'' then await_route rt req ''/soil'' hs w
         else if p = ''/rain-history'' then await_route rt req ''/rain-history'' hs w
         else if p = ''/geocode'' then await_route rt req ''/geocode'' hs w
         else if p = ''/weather'' then await_route rt req ''/weather'' hs w
         else respond hs (w\<lparr>statusCode := 404,
                            responseData := Stringified (JObj [(''error'', JStr ''Not found'')])\<rparr>))"

section \<open>The route handlers\<close>

text \<open>
  What the handlers take from their surroundings: the network, the process environment
  and two language primitives that are defined outside this module. \<open>fetch\<close> answers an
  outbound request; \<open>API_KEY\<close> is \<^verbatim>\<open>process.env.OPENWEATHER_API_KEY\<close>; \<open>month_of v\<close> is
  the outcome of \<^verbatim>\<open>new Date(v)\<close> followed by \<^verbatim>\<open>isNaN\<close> and \<^verbatim>\<open>getMonth()\<close>, for a value
  \<open>v\<close> whose conversion to a primitive does not throw: \<open>None\<close> for an invalid date,
  otherwise the month index in the local time of the process;
  \<open>parseFloat\<close> is the primitive of that name.
\<close>

datatype fetched = NetworkError string | Response nat "jsval option"

record host =
  fetch :: "outbound \<Rightarrow> fetched"
  API_KEY :: "string option"
  month_of :: "jsval \<Rightarrow> nat option"
  parseFloat :: "jsval \<Rightarrow> thrown + jsnum"

type_synonym 'a action = "world \<Rightarrow> (thrown + 'a) \<times> world"

definition then_do :: "thrown + 'a \<Rightarrow> ('a \<Rightarrow> thrown + 'b) \<Rightarrow> thrown + 'b" where
  "then_do r f = (case r of Inl e \<Rightarrow> Inl e | Inr x \<Rightarrow> f x)"

definition try_catch :: "'a action \<Rightarrow> (thrown \<Rightarrow> 'a action) \<Rightarrow> 'a action" where
  "try_catch body recover w =
     (case body w of (Inl e, w1) \<Rightarrow> recover e w1 | (Inr x, w1) \<Rightarrow> (Inr x, w1))"

text \<open>\<^verbatim>\<open>res.status(code).json(d)\<close> and \<^verbatim>\<open>res.json(d)\<close>\<close>

definition status_json :: "res_obj \<Rightarrow> nat \<Rightarrow> jsval \<Rightarrow> unit action" where
  "status_json res code d w =
     (case status_fn res code w of
        (True, w1) \<Rightarrow> (Inr (), json_fn res d w1)
      | (False, w1) \<Rightarrow> (Inl (Exception ''Cannot read properties of undefined (reading json)''), w1))"

definition json_only :: "res_obj \<Rightarrow> jsval \<Rightarrow> unit action" where
  "json_only res d w = (Inr (), json_fn res d w)"

definition error_obj :: "string \<Rightarrow> jsval" where
  "error_obj m = JObj [(''error'', JStr m)]"

text \<open>A query parameter \<open>p\<close> with \<^verbatim>\<open>!p\<close>: absent, or the empty string.\<close>

definition falsy_param :: "string option \<Rightarrow> bool" where
  "falsy_param p = (case p of None \<Rightarrow> True | Some s \<Rightarrow> s = [])"

definition param_text :: "string option \<Rightarrow> string" where
  "param_text p = (case p of None \<Rightarrow> [] | Some s \<Rightarrow> s)"

text \<open>
  \<^verbatim>\<open>const r = await fetch(url); if (!r.ok) throw new Error(...); await r.json()\<close>. The call
  is logged. \<^verbatim>\<open>r.ok\<close> holds for a status from 200 to 299.
\<close>

definition fetch_json :: "host \<Rightarrow> outbound \<Rightarrow> string \<Rightarrow> jsval action" where
  "fetch_json h rq label w =
     (let w1 = w\<lparr>fetches := fetches w @ [rq]\<rparr>
      in case fetch h rq of
           NetworkError m \<Rightarrow> (Inl (Exception m), w1)
         | Response st b \<Rightarrow>
             (if \<not> (200 \<le> st \<and> st \<le> 299) then (Inl (Exception (label @ show_nat st)), w1)
              else (case b of
                      None \<Rightarrow> (Inl (Exception ''Unexpected token in JSON''), w1)
                    | Some j \<Rightarrow> (Inr j, w1))))"

text \<open>\<^verbatim>\<open>a || b\<close>\<close>

definition or_else :: "jsval \<Rightarrow> jsval \<Rightarrow> jsval" where
  "or_else a b = (if truthy a then a else b)"

subsection \<open>Soil\<close>

text \<open>\<^verbatim>\<open>layers.find(l => l.name === name)\<close> on the elements of an array.\<close>

fun find_layer :: "string \<Rightarrow> jsval list \<Rightarrow> thrown + jsval" where
  "find_layer name [] = Inr JUndefined"
| "find_layer name (l # ls) =
     (case read_prop l ''name'' of
        Inl e \<Rightarrow> Inl e
      | Inr n \<Rightarrow> (if n = JStr name then Inr l else find_layer name ls))"

definition byName :: "jsval \<Rightarrow> string \<Rightarrow> thrown + jsval" where
  "byName layers name =
     (case layers of
        JArr ls \<Rightarrow> then_do (find_layer name ls) (\<lambda>l. Inr (or_else l (JObj [])))
      | _ \<Rightarrow> Inl (Exception ''layers.find is not a function''))"

definition firstVal :: "jsval \<Rightarrow> thrown + jsval" where
  "firstVal layer =
     then_do (read_prop layer ''depths'') (\<lambda>depths.
     then_do (if nullish depths then Inr JUndefined else index_at depths 0) (\<lambda>d.
       (case opt_prop (opt_prop d ''values'') ''mean'' of
          JUndefined \<Rightarrow> Inr JNull
        | JNum n \<Rightarrow> Inr (JNum (to_fixed_number 2 n))
        | JNull \<Rightarrow> Inl (Exception ''Cannot read properties of null (reading toFixed)'')
        | _ \<Rightarrow> Inl (Exception ''mean.toFixed is not a function''))))"

text \<open>
  The object of the primary path (lines 37 to 50), from the parsed upstream document.
\<close>

definition soil_values :: "jsval \<Rightarrow> thrown + jsval" where
  "soil_values j =
     (let layers = or_else (or_else (opt_prop (opt_prop j ''properties'') ''layers'')
                                    (opt_prop j ''layers''))
                           (JArr [])
      in then_do (then_do (byName layers ''phh2o'') firstVal) (\<lambda>ph.
         then_do (then_do (byName layers ''nitrogen'') firstVal) (\<lambda>nitrogen.
         then_do (then_do (byName layers ''soc'') firstVal) (\<lambda>soc.
         then_do (to_number (or_else soc (JNum (Fin (15 / 10))))) (\<lambda>c.
           Inr (JObj [(''ph'', or_else ph (JNum (Fin (65 / 10)))),
                      (''nitrogen'', or_else nitrogen (JNum (Fin (15 / 100)))),
                      (''organic_matter'', JNum (js_mul c (Fin (1724 / 1000)))),
                      (''source'', JStr ''soilgrids'')]))))))"

text \<open>
  The fallback (lines 54 to 60). \<^verbatim>\<open>lat\<close> and \<^verbatim>\<open>lon\<close> are the query strings; the product
  converts them to numbers.
\<close>

definition mock_hash :: "string \<Rightarrow> string \<Rightarrow> jsnum" where
  "mock_hash lat lon =
     js_abs (js_mul (js_sin (js_mul (string_to_number lat) (string_to_number lon))) (Fin 10000))"

definition soil_mock :: "string \<Rightarrow> string \<Rightarrow> jsval" where
  "soil_mock lat lon =
     (let hash = mock_hash lat lon
      in JObj [(''ph'', JNum (js_add (Fin (55 / 10)) (js_rem hash (Fin 3)))),
               (''nitrogen'', JNum (js_add (Fin (1 / 10)) (js_div (js_rem hash (Fin 20)) (Fin 100)))),
               (''organic_matter'', JNum (js_add (Fin 1) (js_div (js_rem hash (Fin 30)) (Fin 10)))),
               (''source'', JStr ''mock'')])"

definition soil_handler :: "host \<Rightarrow> res_obj \<Rightarrow> (string \<rightharpoonup> string) \<Rightarrow> unit action" where
  "soil_handler h res q =
     try_catch
       (\<lambda>w. if falsy_param (q ''lat'') \<or> falsy_param (q ''lon'')
             then status_json res 400 (error_obj ''Missing lat/lon'') w
             else
               (let lat = param_text (q ''lat''); lon = param_text (q ''lon'')
                in try_catch
                     (\<lambda>w. case fetch_json h (SoilGrids lat lon) ''SoilGrids error '' w of
                             (Inl e, w1) \<Rightarrow> (Inl e, w1)
                           | (Inr j, w1) \<Rightarrow>
                               (case soil_values j of
                                  Inl e \<Rightarrow> (Inl e, w1)
                                | Inr obj \<Rightarrow> json_only res obj w1))
                     (\<lambda>soilErr. json_only res (soil_mock lat lon)) w))
       (\<lambda>e. status_json res 500 (error_obj ''Soil data fetch failed''))"

subsection \<open>Rain history\<close>

definition monthNames :: "string list" where
  "monthNames = [''Jan'', ''Feb'', ''Mar'', ''Apr'', ''May'', ''Jun'',
                 ''Jul'', ''Aug'', ''Sep'', ''Oct'', ''Nov'', ''Dec'']"

text \<open>\<^verbatim>\<open>Number(val) || 0\<close>\<close>

definition contribution :: "jsval \<Rightarrow> thrown + jsnum" where
  "contribution val = then_do (to_number val) (\<lambda>n. Inr (if num_truthy n then n else Fin 0))"

text \<open>
  The \<^verbatim>\<open>forEach\<close> loop of lines 88 to 94 over the remaining values, \<open>i\<close> the index of the
  first of them. \<^verbatim>\<open>new Date(t)\<close> converts an array or an object to a primitive first,
  which can throw. A month index is below 12; were it not, the assignment would write
  beyond the twelve entries that are read afterwards.
\<close>

fun add_days :: "(jsval \<Rightarrow> nat option) \<Rightarrow> jsval \<Rightarrow> jsval list \<Rightarrow> nat \<Rightarrow> jsnum list
                  \<Rightarrow> thrown + jsnum list" where
  "add_days mo ts [] i monthly = Inr monthly"
| "add_days mo ts (val # vals) i monthly =
     (case index_at ts i of
        Inl e \<Rightarrow> Inl e
      | Inr t \<Rightarrow>
          (if to_string_throws t then Inl (Exception ''Cannot convert object to primitive value'')
           else
             (case mo t of
                None \<Rightarrow> add_days mo ts vals (Suc i) monthly
              | Some m \<Rightarrow>
                  (case contribution val of
                     Inl e \<Rightarrow> Inl e
                   | Inr n \<Rightarrow>
                       add_days mo ts vals (Suc i)
                         (if m < length monthly then monthly[m := js_add (monthly ! m) n]
                          else monthly)))))"

text \<open>\<^verbatim>\<open>data?.daily || {}\<close> and \<^verbatim>\<open>daily.precipitation_sum || []\<close>\<close>

definition daily_of :: "jsval \<Rightarrow> jsval" where
  "daily_of data = or_else (opt_prop data ''daily'') (JObj [])"

definition precip_of :: "jsval \<Rightarrow> jsval" where
  "precip_of data = or_else (get_prop (daily_of data) ''precipitation_sum'') (JArr [])"

text \<open>
  Lines 83 to 99. \<^verbatim>\<open>forEach\<close> is a method of arrays only. The result maps the month
  names, each with its index, to the entry of that index.
\<close>

definition rain_result :: "(jsval \<Rightarrow> nat option) \<Rightarrow> jsval \<Rightarrow> thrown + jsval" where
  "rain_result mo data =
     (case precip_of data of
        JArr vals \<Rightarrow>
          then_do (add_days mo (get_prop (daily_of data) ''time'') vals 0 (replicate 12 (Fin 0)))
            (\<lambda>monthly.
               Inr (JArr (map (\<lambda>(i, name). JObj [(''month'', JStr name),
                                                   (''rainfall'', JNum (to_fixed_number 1 (monthly ! i)))])
                              (enumerate 0 monthNames))))
      | _ \<Rightarrow> Inl (Exception ''precip.forEach is not a function''))"

definition rain_history_handler :: "host \<Rightarrow> res_obj \<Rightarrow> (string \<rightharpoonup> string) \<Rightarrow> unit action" where
  "rain_history_handler h res q =
     try_catch
       (\<lambda>w. if falsy_param (q ''lat'') \<or> falsy_param (q ''lon'')
             then status_json res 400 (error_obj ''Missing lat/lon'') w
             else
               (case fetch_json h (OpenMeteoArchive (param_text (q ''lat'')) (param_text (q ''lon'')))
                       ''Open-Meteo error '' w of
                  (Inl e, w1) \<Rightarrow> (Inl e, w1)
                | (Inr data, w1) \<Rightarrow>
                    (case rain_result (month_of h) data of
                       Inl e \<Rightarrow> (Inl e, w1)
                     | Inr result \<Rightarrow> json_only res result w1)))
       (\<lambda>e. status_json res 500 (error_obj ''Rain history fetch failed''))"

subsection \<open>Geocode\<close>

definition geocode_result :: "host \<Rightarrow> jsval \<Rightarrow> thrown + jsval" where
  "geocode_result h first =
     (if nullish first then Inl (Exception ''Cannot destructure property lat'')
      else then_do (parseFloat h (get_prop first ''lat'')) (\<lambda>lat.
           then_do (parseFloat h (get_prop first ''lon'')) (\<lambda>lon.
             Inr (JObj [(''lat'', JNum lat), (''lon'', JNum lon),
                        (''display_name'', get_prop first ''display_name''),
                        (''class'', get_prop first ''class''),
                        (''type'', get_prop first ''type'')]))))"

definition geocode_handler :: "host \<Rightarrow> res_obj \<Rightarrow> (string \<rightharpoonup> string) \<Rightarrow> unit action" where
  "geocode_handler h res q =
     try_catch
       (\<lambda>w. if falsy_param (q ''q'') then status_json res 400 (error_obj ''Missing query'') w
             else
               (case fetch_json h (Nominatim (param_text (q ''q''))) ''Nominatim error '' w of
                  (Inl e, w1) \<Rightarrow> (Inl e, w1)
                | (Inr data, w1) \<Rightarrow>
                    (if \<not> truthy data \<or> get_prop data ''length'' = JNum (Fin 0)
                     then status_json res 404 (error_obj ''Location not found'') w1
                     else
                       (case then_do (index_at data 0) (geocode_result h) of
                          Inl e \<Rightarrow> (Inl e, w1)
                        | Inr result \<Rightarrow> json_only res result w1))))
       (\<lambda>e. status_json res 500 (error_obj ''Geocoding failed''))"

subsection \<open>Weather\<close>

definition weather_result :: "jsval \<Rightarrow> thrown + jsval" where
  "weather_result data =
     then_do (then_do (read_prop data ''main'') (\<lambda>m. read_prop m ''temp'')) (\<lambda>temperature.
     then_do (then_do (read_prop data ''main'') (\<lambda>m. read_prop m ''humidity'')) (\<lambda>humidity.
     then_do (then_do (then_do (read_prop data ''weather'') (\<lambda>ws. index_at ws 0))
                      (\<lambda>w0. read_prop w0 ''description'')) (\<lambda>description.
     then_do (then_do (read_prop data ''wind'') (\<lambda>wd. read_prop wd ''speed'')) (\<lambda>wind_speed.
     then_do (read_prop data ''name'') (\<lambda>location.
       Inr (JObj [(''temperature'', temperature), (''humidity'', humidity),
                  (''description'', description), (''wind_speed'', wind_speed),
                  (''location'', location)]))))))"

definition weather_handler :: "host \<Rightarrow> res_obj \<Rightarrow> (string \<rightharpoonup> string) \<Rightarrow> unit action" where
  "weather_handler h res q =
     try_catch
       (\<lambda>w. if falsy_param (q ''lat'') \<or> falsy_param (q ''lon'')
             then status_json res 400 (error_obj ''Missing lat/lon'') w
             else if falsy_param (API_KEY h)
             then status_json res 500 (error_obj ''OpenWeather API key not configured'') w
             else
               (case fetch_json h (OpenWeather (param_text (q ''lat'')) (param_text (q ''lon''))
                                               (param_text (API_KEY h)))
                       ''OpenWeather error '' w of
                  (Inl e, w1) \<Rightarrow> (Inl e, w1)
                | (Inr data, w1) \<Rightarrow>
                    (case weather_result data of
                       Inl e \<Rightarrow> (Inl e, w1)
                     | Inr result \<Rightarrow> json_only res result w1)))
       (\<lambda>e. status_json res 500 (error_obj ''Weather data fetch failed''))"

subsection \<open>Dates\<close>

text \<open>
  The archive service sends dates in the date-only form \<^verbatim>\<open>YYYY-MM-DD\<close>. The language
  reads such a string, when its month and day exist, as midnight UTC of that day, and
  \<^verbatim>\<open>getMonth()\<close> gives the month of that instant in the local time of the process.
  \<open>tz day\<close> is the number of minutes by which the local time is ahead of UTC at midnight
  UTC of the day (less than a day either way; it may change over the year). Midnight UTC
  falls on the same calendar day when that offset is not negative and on the day before
  when it is, which for the first of a month is in the month before. \<^verbatim>\<open>undefined\<close> gives
  an invalid date. What any other argument gives is left to \<open>other\<close>.
\<close>

definition leap_year :: "nat \<Rightarrow> bool" where
  "leap_year y = (y mod 4 = 0 \<and> (y mod 100 \<noteq> 0 \<or> y mod 400 = 0))"

definition days_in_month :: "nat \<Rightarrow> nat \<Rightarrow> nat" where
  "days_in_month y m =
     (if m = 2 then (if leap_year y then 29 else 28)
      else if m = 4 \<or> m = 6 \<or> m = 9 \<or> m = 11 then 30 else 31)"

definition parse_date_only :: "string \<Rightarrow> (nat \<times> nat \<times> nat) option" where
  "parse_date_only s =
     (if length s = 10 \<and> s ! 4 = CHR ''-'' \<and> s ! 7 = CHR ''-'' then
        (case (digits 10 (take 4 s), digits 10 (take 2 (drop 5 s)), digits 10 (drop 8 s)) of
           (Some y, Some m, Some d) \<Rightarrow>
             (if 1 \<le> m \<and> m \<le> 12 \<and> 1 \<le> d \<and> d \<le> days_in_month y m then Some (y, m, d)
              else None)
         | _ \<Rightarrow> None)
      else None)"

definition es_month_of ::
  "(nat \<times> nat \<times> nat \<Rightarrow> int) \<Rightarrow> (jsval \<Rightarrow> nat option) \<Rightarrow> jsval \<Rightarrow> nat option" where
  "es_month_of tz other v =
     (case v of
        JUndefined \<Rightarrow> None
      | JStr s \<Rightarrow>
          (case parse_date_only s of
             Some (y, m, d) \<Rightarrow> Some (if tz (y, m, d) < 0 \<and> d = 1 then (m + 10) mod 12 else m - 1)
           | None \<Rightarrow> other v)
      | _ \<Rightarrow> other v)"

subsection \<open>The application as a router\<close>

text \<open>
  The framework's own middleware runs before any middleware of the application. With
  the framework's settings as this module leaves them it adds the \<^verbatim>\<open>X-Powered-By\<close> header
  by \<^verbatim>\<open>res.setHeader\<close>. Calling a method the response object does not have is a
  \<^verbatim>\<open>TypeError\<close>.
\<close>

definition framework_init :: "res_obj \<Rightarrow> unit action" where
  "framework_init res w =
     (case setHeader_fn res of
        None \<Rightarrow> (Inl (Exception ''res.setHeader is not a function''), w)
      | Some f \<Rightarrow> (Inr (), f ''X-Powered-By'' ''Express'' w))"

text \<open>Line 15: \<^verbatim>\<open>(req,res,next)=>{ res.set('Cache-Control','no-store'); next(); }\<close>\<close>

definition cache_middleware :: "res_obj \<Rightarrow> unit action" where
  "cache_middleware res w =
     (case set_fn res of
        None \<Rightarrow> (Inl (Exception ''res.set is not a function''), w)
      | Some f \<Rightarrow> (Inr (), f ''Cache-Control'' ''no-store'' w))"

text \<open>
  The four \<^verbatim>\<open>app.get\<close> registrations: a \<^verbatim>\<open>GET\<close> request (or a \<^verbatim>\<open>HEAD\<close> request, which
  such a route takes as well) for one of the paths runs the callback on the response
  object. The framework does not look at the promise the callback returns and does not
  call \<^verbatim>\<open>next\<close> after it; a request that no route takes is passed on by \<^verbatim>\<open>next()\<close>,
  without an error.
\<close>

definition routes :: "host \<Rightarrow> router" where
  "routes h req res w =
     (if req_method req \<noteq> ''GET'' \<and> req_method req \<noteq> ''HEAD'' then (Some (Value JUndefined), w)
      else if req_url req = ''/soil'' then (None, snd (soil_handler h res (req_query req) w))
      else if req_url req = ''/rain-history'' then
        (None, snd (rain_history_handler h res (req_query req) w))
      else if req_url req = ''/geocode'' then (None, snd (geocode_handler h res (req_query req) w))
      else if req_url req = ''/weather'' then (None, snd (weather_handler h res (req_query req) w))
      else (Some (Value JUndefined), w))"

text \<open>
  \<^verbatim>\<open>app._router.handle\<close> for the application of lines 6 to 161: the framework's own
  middleware, then the middleware of lines 13 and 15 in the order of their registration,
  then the routes; what a middleware throws is passed to \<^verbatim>\<open>next\<close> and nothing after it
  runs. The middleware \<^verbatim>\<open>cors()\<close> comes from a library and is a parameter.
\<close>

definition app_router :: "(res_obj \<Rightarrow> unit action) \<Rightarrow> host \<Rightarrow> router" where
  "app_router cors h req res w =
     (case framework_init res w of
        (Inl e, w0) \<Rightarrow> (Some e, w0)
      | (Inr u, w0) \<Rightarrow>
          (case cors res w0 of
             (Inl e, w1) \<Rightarrow> (Some e, w1)
           | (Inr u, w1) \<Rightarrow>
               (case cache_middleware res w1 of
                  (Inl e, w2) \<Rightarrow> (Some e, w2)
                | (Inr u, w2) \<Rightarrow> routes h req res w2)))"

section \<open>Sample documents\<close>

text \<open>
  The daily series of the aggregation example, in the shape the archive service sends it
  (two parallel arrays), and a rain-history answer with the given twelve values.
\<close>

definition january_series :: jsval where
  "january_series =
     JObj [(''daily'', JObj [(''time'', JArr [JStr ''2023-01-01'', JStr ''2023-01-15'']),
                             (''precipitation_sum'', JArr [JNum (Fin 5), JNum (Fin 3)])])]"

definition report :: "real list \<Rightarrow> jsval" where
  "report vals =
     JArr (map (\<lambda>(name, v). JObj [(''month'', JStr name), (''rainfall'', JNum (Fin v))])
               (zip monthNames vals))"

text \<open>
  An answer of the archive service: the dates and the values of the days it has, in two
  parallel arrays of any length. A reading is a number or \<^verbatim>\<open>null\<close>.
\<close>

definition archive_document :: "string list \<Rightarrow> jsval list \<Rightarrow> jsval" where
  "archive_document dates vals =
     JObj [(''daily'', JObj [(''time'', JArr (map JStr dates)),
                             (''precipitation_sum'', JArr vals)])]"

definition reading :: "jsval \<Rightarrow> bool" where
  "reading v = (case v of JNum n \<Rightarrow> True | JNull \<Rightarrow> True | _ \<Rightarrow> False)"

text \<open>
  A host whose archive service answers with the two days of \<open>january_series\<close>, and whose
  local time is UTC.
\<close>

definition archive_host :: host where
  "archive_host =
     \<lparr> fetch = (\<lambda>rq. Response 200 (Some (archive_document [''2023-01-01'', ''2023-01-15'']
                                                           [JNum (Fin 5), JNum (Fin 3)]))),
       API_KEY = None, month_of = es_month_of (\<lambda>day. 0) (\<lambda>v. None),
       parseFloat = (\<lambda>v. Inr NaN) \<rparr>"

text \<open>A soil document whose only layer is \<^verbatim>\<open>phh2o\<close>, with the given mean at the first depth.\<close>

definition ph_document :: "real \<Rightarrow> jsval" where
  "ph_document mean =
     JObj [(''properties'', JObj [(''layers'',
       JArr [JObj [(''name'', JStr ''phh2o''),
                   (''depths'', JArr [JObj [(''values'', JObj [(''mean'', JNum (Fin mean))])]])]])])]"

text \<open>A host without network and without an API key, and a \<^verbatim>\<open>cors\<close> that does nothing.\<close>

definition offline :: host where
  "offline = \<lparr> fetch = (\<lambda>rq. NetworkError ''fetch failed''), API_KEY = None,
               month_of = (\<lambda>v. None), parseFloat = (\<lambda>v. Inr NaN) \<rparr>"

definition no_cors :: "res_obj \<Rightarrow> unit action" where
  "no_cors res w = (Inr (), w)"

section \<open>Notions used in the statements\<close>

text \<open>\<^verbatim>\<open>lo <= n && n < hi\<close>, \<^verbatim>\<open>n >= 0\<close> and \<^verbatim>\<open>n < 0\<close>: comparisons with \<^verbatim>\<open>NaN\<close> are false.\<close>

definition in_range :: "real \<Rightarrow> real \<Rightarrow> jsnum \<Rightarrow> bool" where
  "in_range lo hi n = (case n of Fin x \<Rightarrow> lo \<le> x \<and> x < hi | _ \<Rightarrow> False)"

definition nonneg :: "jsnum \<Rightarrow> bool" where
  "nonneg n = (case n of Fin x \<Rightarrow> 0 \<le> x | PosInf \<Rightarrow> True | _ \<Rightarrow> False)"

definition negative :: "jsnum \<Rightarrow> bool" where
  "negative n = (case n of Fin x \<Rightarrow> x < 0 | NegInf \<Rightarrow> True | _ \<Rightarrow> False)"

text \<open>The number in the field \<open>k\<close> of an object.\<close>

definition num_field :: "jsval \<Rightarrow> string \<Rightarrow> jsnum" where
  "num_field v k = (case get_prop v k of JNum n \<Rightarrow> n | _ \<Rightarrow> NaN)"

text \<open>
  The answers of the soil service on which the inner \<^verbatim>\<open>try\<close> block of the soil handler
  throws: no answer, a status that is not a success, a body that is not JSON, or a
  document on which the projection throws.
\<close>

definition primary_fails :: "fetched \<Rightarrow> bool" where
  "primary_fails r =
     (case r of
        NetworkError m \<Rightarrow> True
      | Response st b \<Rightarrow>
          (\<not> (200 \<le> st \<and> st \<le> 299)
           \<or> (case b of None \<Rightarrow> True | Some j \<Rightarrow> isl (soil_values j))))"

text \<open>The values of the upstream precipitation array, none when there is no array.\<close>

definition precip_values :: "jsval \<Rightarrow> jsval list" where
  "precip_values data = (case precip_of data of JArr vals \<Rightarrow> vals | _ \<Rightarrow> [])"

section \<open>Properties of the adapter\<close>

lemmas adapter_defs = handler_def await_route_def respond_def message_of_def stripped_path_def
  mock_request_def initial_world_def app_router_def framework_init_def cache_middleware_def
  routes_def mock_res_def no_cors_def

lemmas handler_defs = try_catch_def status_json_def json_only_def falsy_param_def
  param_text_def fetch_json_def error_obj_def

lemmas str_defs = string_to_number_def trim_def is_ws_def non_decimal_def str_decimal_def
  unsigned_decimal_def is_digit_def digit_value_def digits_def exponent_part_def scale10_def
  fin_def overflow_at_def

lemmas soil_defs = soil_handler_def soil_values_def byName_def firstVal_def then_do_def or_else_def
  opt_prop_def read_prop_def nullish_def to_number_def js_mul_def num_truthy_def index_at_def
  to_fixed_number_def fin_def overflow_at_def

lemma respond_headers: "respond hs w = Returned e \<Longrightarrow> env_headers e = hs"
  by (auto simp: respond_def)

lemma await_route_headers: "await_route rt req url hs w = Returned e \<Longrightarrow> env_headers e = hs"
  by (auto simp: await_route_def respond_def split: prod.splits option.splits sum.splits)

lemma handler_headers: "handler rt now ev = Returned e \<Longrightarrow> env_headers e = cors_headers"
  by (auto simp: handler_def Let_def dest: respond_headers await_route_headers split: if_splits)

lemma await_route_returns_500:
  "await_route rt req url hs w = Returned e \<Longrightarrow>
     env_statusCode e = 500 \<and> (\<exists>m. env_body e = Stringified (JObj [(''error'', m)]))"
  by (auto simp: await_route_def respond_def split: prod.splits option.splits sum.splits)

text \<open>
  \<^verbatim>\<open>resolve\<close> is never called: while the router does not call \<^verbatim>\<open>next\<close>, the adapter
  waits, whatever the route callback has captured by then.
\<close>

lemma proxy_route_pending:
  assumes "httpMethod ev \<noteq> ''OPTIONS''"
    and "stripped_path ev \<in> {''/soil'', ''/rain-history'', ''/geocode'', ''/weather''}"
    and "fst (rt ((mock_request ev)\<lparr>req_url := stripped_path ev\<rparr>) mock_res initial_world) = None"
  shows "handler rt now ev = Pending"
  using assms
  by (auto simp: handler_def Let_def await_route_def split: prod.splits)

text \<open>
  The adapter itself rejects in one case only: the promise was rejected with
  \<^verbatim>\<open>undefined\<close> or \<^verbatim>\<open>null\<close>, as by a router that passes the request on with \<^verbatim>\<open>next()\<close>;
  reading \<^verbatim>\<open>error.message\<close> in the catch block then throws in its turn.
\<close>

lemma await_route_rejects_only_on_nullish:
  "await_route rt req url hs w = Rejected t \<Longrightarrow>
     \<exists>v. nullish v \<and> fst (rt (req\<lparr>req_url := url\<rparr>) mock_res w) = Some (Value v)"
  by (auto simp: await_route_def respond_def message_of_def read_prop_def
           split: prod.splits option.splits sum.splits thrown.splits if_splits)

lemma adapter_rejects_only_on_nullish:
  assumes "handler rt now ev = Rejected t"
  shows "\<exists>v. nullish v
           \<and> fst (rt ((mock_request ev)\<lparr>req_url := stripped_path ev\<rparr>) mock_res initial_world)
               = Some (Value v)"
  using assms
  by (auto simp: handler_def Let_def respond_def dest: await_route_rejects_only_on_nullish
           split: if_splits)

lemma proxy_route_fall_through:
  assumes "httpMethod ev \<noteq> ''OPTIONS''"
    and "stripped_path ev \<in> {''/soil'', ''/rain-history'', ''/geocode'', ''/weather''}"
    and "fst (rt ((mock_request ev)\<lparr>req_url := stripped_path ev\<rparr>) mock_res initial_world)
           = Some (Value JUndefined)"
  shows "\<exists>t. handler rt now ev = Rejected t"
  using assms
  by (auto simp: handler_def Let_def await_route_def message_of_def read_prop_def nullish_def
           split: prod.splits)

text \<open>
  On the adapter's response object the application gets no further than the framework's
  own middleware: the object has no \<^verbatim>\<open>setHeader\<close>. No middleware of the application and
  no route callback runs, the state is left as it was, and the \<^verbatim>\<open>TypeError\<close> is passed
  to \<^verbatim>\<open>next\<close>, whatever the request, the host and \<^verbatim>\<open>cors\<close>.
\<close>

lemma app_router_on_mock:
  "app_router cors h req mock_res w = (Some (Exception ''res.setHeader is not a function''), w)"
  by (simp add: app_router_def framework_init_def mock_res_def)

text \<open>On the framework's response object the middleware of line 15 sets the header.\<close>

lemma cache_middleware_express:
  "cache_middleware express_res w
     = (Inr (), w\<lparr>resHeaders := (''Cache-Control'', ''no-store'')
                       # filter (\<lambda>p. fst p \<noteq> ''Cache-Control'') (resHeaders w)\<rparr>)"
  by (simp add: cache_middleware_def express_res_def)

text \<open>
  Claim C1. For an event on one of the four proxy routes whose route callback runs to
  completion, the adapter is to return the status and the serialised output of the
  callback. The adapter waits for a promise that only a rejection settles, so on these
  routes it returns through its catch block only: whatever the router and the callbacks
  do, an envelope it returns has status 500 and an error object as its body.
\<close>

theorem proxy_route_returns_only_500:
  assumes "httpMethod ev \<noteq> ''OPTIONS''"
    and "stripped_path ev \<in> {''/soil'', ''/rain-history'', ''/geocode'', ''/weather''}"
    and "handler rt now ev = Returned e"
  shows "env_statusCode e = 500 \<and> (\<exists>m. env_body e = Stringified (JObj [(''error'', m)]))"
  using assms
  by (auto simp: handler_def Let_def dest: await_route_returns_500 split: if_splits)

theorem proxy_route_returns_only_500_witness:
  "handler (app_router no_cors offline) ''2026-01-01T00:00:00.000Z''
     \<lparr>path = ''/.netlify/functions/api/soil'', httpMethod = ''GET'',
      queryStringParameters = Some [''lat'' \<mapsto> ''10'', ''lon'' \<mapsto> ''20''], headers = None\<rparr>
     = Returned (Envelope 500 cors_headers
                   (Stringified (JObj [(''error'', JStr ''res.setHeader is not a function'')])))
   \<and> env_statusCode (Envelope 500 cors_headers
                   (Stringified (JObj [(''error'', JStr ''res.setHeader is not a function'')]))) = 500"
proof -
  let ?ev = "\<lparr>path = ''/.netlify/functions/api/soil'', httpMethod = ''GET'',
      queryStringParameters = Some [''lat'' \<mapsto> ''10'', ''lon'' \<mapsto> ''20''], headers = None\<rparr>"
  have m: "httpMethod ?ev \<noteq> ''OPTIONS''" by simp
  have p: "stripped_path ?ev \<in> {''/soil'', ''/rain-history'', ''/geocode'', ''/weather''}"
    by (simp add: stripped_path_def)
  have r: "handler (app_router no_cors offline) ''2026-01-01T00:00:00.000Z'' ?ev
     = Returned (Envelope 500 cors_headers
                   (Stringified (JObj [(''error'', JStr ''res.setHeader is not a function'')])))"
    by (simp add: adapter_defs)
  show ?thesis
    using r proxy_route_returns_only_500 [OF m p r] by simp
qed

text \<open>
  Were the request handed to the route callback directly, the soil callback would run to
  completion on the adapter's response object (the upstream document is \<^verbatim>\<open>{}\<close>, so every
  value is the default) and its output would be captured, and the adapter would not
  return.
\<close>

lemma soil_callback_completes_adapter_pending:
  "soil_handler (offline\<lparr>fetch := (\<lambda>rq. Response 200 (Some (JObj [])))\<rparr>) mock_res
     [''lat'' \<mapsto> ''10'', ''lon'' \<mapsto> ''20''] initial_world
   = (Inr (), \<lparr>statusCode = 200,
        responseData = Stringified (JObj [(''ph'', JNum (Fin (65 / 10))),
                                          (''nitrogen'', JNum (Fin (15 / 100))),
                                          (''organic_matter'', JNum (Fin (2586 / 1000))),
                                          (''source'', JStr ''soilgrids'')]),
        resHeaders = [],
        fetches = [SoilGrids ''10'' ''20'']\<rparr>)
   \<and> handler (routes (offline\<lparr>fetch := (\<lambda>rq. Response 200 (Some (JObj [])))\<rparr>)) now
       \<lparr>path = ''/.netlify/functions/api/soil'', httpMethod = ''GET'',
        queryStringParameters = Some [''lat'' \<mapsto> ''10'', ''lon'' \<mapsto> ''20''], headers = None\<rparr>
     = Pending"
  by (simp add: adapter_defs handler_defs soil_defs offline_def)

text \<open>
  Claim C2. Any exception raised while a route is handled is caught at the adapter
  boundary and converted into status 500 with the body \<^verbatim>\<open>{"error": message}\<close>, and no
  exception escapes the adapter. First, whatever the router: an exception with message
  \<open>m\<close> with which the invocation fails (the router throws it or passes it to \<^verbatim>\<open>next\<close>)
  gives the envelope 500 with \<^verbatim>\<open>{"error": m}\<close>. Second, the application: on each of the
  four routes the invocation fails in the framework's own middleware, before any route
  callback runs, and that exception is so converted. Third, for every event, host and
  \<^verbatim>\<open>cors\<close> the adapter returns an envelope: it neither rejects nor waits.
\<close>

theorem adapter_catches_exception:
  "(httpMethod ev \<noteq> ''OPTIONS''
      \<and> stripped_path ev \<in> {''/soil'', ''/rain-history'', ''/geocode'', ''/weather''}
      \<and> fst (rt ((mock_request ev)\<lparr>req_url := stripped_path ev\<rparr>) mock_res initial_world)
            = Some (Exception m)
    \<longrightarrow> handler rt now ev
          = Returned (Envelope 500 cors_headers (Stringified (JObj [(''error'', JStr m)]))))
   \<and> (httpMethod ev \<noteq> ''OPTIONS''
      \<and> stripped_path ev \<in> {''/soil'', ''/rain-history'', ''/geocode'', ''/weather''}
    \<longrightarrow> app_router cors h ((mock_request ev)\<lparr>req_url := stripped_path ev\<rparr>) mock_res initial_world
          = (Some (Exception ''res.setHeader is not a function''), initial_world)
        \<and> handler (app_router cors h) now ev
          = Returned (Envelope 500 cors_headers
               (Stringified (JObj [(''error'', JStr ''res.setHeader is not a function'')]))))
   \<and> (\<exists>e. handler (app_router cors h) now ev = Returned e)"
proof (intro conjI impI)
  assume "httpMethod ev \<noteq> ''OPTIONS''
      \<and> stripped_path ev \<in> {''/soil'', ''/rain-history'', ''/geocode'', ''/weather''}
      \<and> fst (rt ((mock_request ev)\<lparr>req_url := stripped_path ev\<rparr>) mock_res initial_world)
            = Some (Exception m)"
  then show "handler rt now ev
          = Returned (Envelope 500 cors_headers (Stringified (JObj [(''error'', JStr m)])))"
    by (auto simp: handler_def Let_def await_route_def respond_def message_of_def
             split: prod.splits)
next
  assume "httpMethod ev \<noteq> ''OPTIONS''
      \<and> stripped_path ev \<in> {''/soil'', ''/rain-history'', ''/geocode'', ''/weather''}"
  then show "handler (app_router cors h) now ev
          = Returned (Envelope 500 cors_headers
               (Stringified (JObj [(''error'', JStr ''res.setHeader is not a function'')])))"
    by (auto simp: handler_def Let_def await_route_def respond_def message_of_def
                   app_router_on_mock initial_world_def)
next
  show "app_router cors h ((mock_request ev)\<lparr>req_url := stripped_path ev\<rparr>) mock_res initial_world
          = (Some (Exception ''res.setHeader is not a function''), initial_world)"
    by (rule app_router_on_mock)
next
  show "\<exists>e. handler (app_router cors h) now ev = Returned e"
    by (simp add: handler_def Let_def await_route_def respond_def message_of_def
          app_router_on_mock)
qed

theorem adapter_catches_exception_witness:
  "handler (\<lambda>req res w. (Some (Exception ''boom''), w)) ''2026-01-01T00:00:00.000Z''
     \<lparr>path = ''/.netlify/functions/api/weather'', httpMethod = ''GET'',
      queryStringParameters = None, headers = None\<rparr>
     = Returned (Envelope 500 cors_headers (Stringified (JObj [(''error'', JStr ''boom'')])))
   \<and> handler (app_router no_cors offline) ''2026-01-01T00:00:00.000Z''
       \<lparr>path = ''/.netlify/functions/api/weather'', httpMethod = ''GET'',
        queryStringParameters = None, headers = None\<rparr>
     = Returned (Envelope 500 cors_headers
          (Stringified (JObj [(''error'', JStr ''res.setHeader is not a function'')])))"
  using adapter_catches_exception
          [of "\<lparr>path = ''/.netlify/functions/api/weather'', httpMethod = ''GET'',
                queryStringParameters = None, headers = None\<rparr>"
              "\<lambda>req res w. (Some (Exception ''boom''), w)" "''boom''"
              "''2026-01-01T00:00:00.000Z''" no_cors offline]
  by (simp add: stripped_path_def)

text \<open>
  Claim C10. Every response of the adapter is to carry \<^verbatim>\<open>Cache-Control: no-store\<close>
  together with the CORS headers. The header object of the adapter is the three CORS
  headers and nothing changes it: every envelope the adapter returns has
  \<^verbatim>\<open>Access-Control-Allow-Origin: *\<close> and no \<^verbatim>\<open>Cache-Control\<close> header.
\<close>

theorem adapter_headers_lack_cache_control:
  assumes "handler rt now ev = Returned e"
  shows "map_of (env_headers e) ''Cache-Control'' = None
         \<and> map_of (env_headers e) ''Access-Control-Allow-Origin'' = Some ''*''"
  using handler_headers [OF assms] by (simp add: cors_headers_def)

theorem adapter_headers_lack_cache_control_witness:
  "handler (app_router no_cors offline) ''2026-01-01T00:00:00.000Z''
     \<lparr>path = ''/health'', httpMethod = ''GET'', queryStringParameters = None, headers = None\<rparr>
     = Returned (Envelope 200 cors_headers
          (Stringified (JObj [(''status'', JStr ''ok''),
                              (''timestamp'', JStr ''2026-01-01T00:00:00.000Z'')])))
   \<and> map_of (env_headers (Envelope 200 cors_headers
          (Stringified (JObj [(''status'', JStr ''ok''),
                              (''timestamp'', JStr ''2026-01-01T00:00:00.000Z'')]))))
        ''Cache-Control'' = None"
proof -
  have r: "handler (app_router no_cors offline) ''2026-01-01T00:00:00.000Z''
     \<lparr>path = ''/health'', httpMethod = ''GET'', queryStringParameters = None, headers = None\<rparr>
     = Returned (Envelope 200 cors_headers
          (Stringified (JObj [(''status'', JStr ''ok''),
                              (''timestamp'', JStr ''2026-01-01T00:00:00.000Z'')])))"
    by (simp add: handler_def stripped_path_def respond_def initial_world_def)
  show ?thesis
    using r adapter_headers_lack_cache_control [OF r] by simp
qed

section \<open>Properties of the handlers\<close>

text \<open>
  Claim C3. A request to the soil, rain-history or weather route without \<^verbatim>\<open>lat\<close> or
  without \<^verbatim>\<open>lon\<close> is answered with status 400 and \<^verbatim>\<open>{"error":"Missing lat/lon"}\<close>; a
  request to the geocode route without \<^verbatim>\<open>q\<close> with status 400 and
  \<^verbatim>\<open>{"error":"Missing query"}\<close>. The handlers answer on the response object of the
  framework; nothing else of the state changes, so no outbound call is made.
\<close>

theorem missing_parameters_400:
  "(q ''lat'' = None \<or> q ''lon'' = None \<longrightarrow>
      soil_handler h express_res q w
        = (Inr (), w\<lparr>statusCode := 400,
                      responseData := Stringified (JObj [(''error'', JStr ''Missing lat/lon'')])\<rparr>)
    \<and> rain_history_handler h express_res q w
        = (Inr (), w\<lparr>statusCode := 400,
                      responseData := Stringified (JObj [(''error'', JStr ''Missing lat/lon'')])\<rparr>)
    \<and> weather_handler h express_res q w
        = (Inr (), w\<lparr>statusCode := 400,
                      responseData := Stringified (JObj [(''error'', JStr ''Missing lat/lon'')])\<rparr>))
   \<and> (q ''q'' = None \<longrightarrow>
      geocode_handler h express_res q w
        = (Inr (), w\<lparr>statusCode := 400,
                      responseData := Stringified (JObj [(''error'', JStr ''Missing query'')])\<rparr>))"
  by (auto simp: soil_handler_def rain_history_handler_def weather_handler_def geocode_handler_def
        try_catch_def status_json_def express_res_def falsy_param_def error_obj_def)

theorem missing_parameters_400_witness:
  "soil_handler offline express_res [''lon'' \<mapsto> ''20''] initial_world
     = (Inr (), \<lparr>statusCode = 400,
          responseData = Stringified (JObj [(''error'', JStr ''Missing lat/lon'')]),
          resHeaders = [], fetches = []\<rparr>)
   \<and> rain_history_handler offline express_res [''lon'' \<mapsto> ''20''] initial_world
     = (Inr (), \<lparr>statusCode = 400,
          responseData = Stringified (JObj [(''error'', JStr ''Missing lat/lon'')]),
          resHeaders = [], fetches = []\<rparr>)
   \<and> weather_handler offline express_res [''lon'' \<mapsto> ''20''] initial_world
     = (Inr (), \<lparr>statusCode = 400,
          responseData = Stringified (JObj [(''error'', JStr ''Missing lat/lon'')]),
          resHeaders = [], fetches = []\<rparr>)
   \<and> geocode_handler offline express_res [''lon'' \<mapsto> ''20''] initial_world
     = (Inr (), \<lparr>statusCode = 400,
          responseData = Stringified (JObj [(''error'', JStr ''Missing query'')]),
          resHeaders = [], fetches = []\<rparr>)"
  using missing_parameters_400 [of "[''lon'' \<mapsto> ''20'']" offline initial_world]
  by (simp add: initial_world_def)

text \<open>
  On the adapter's response object the same request does not get that far:
  \<^verbatim>\<open>res.status(400)\<close> evaluates to \<^verbatim>\<open>undefined\<close>, the chained \<^verbatim>\<open>.json\<close> throws, and so
  does the one in the handler's catch block.
\<close>

lemma missing_parameter_on_mock:
  "q ''lat'' = None \<or> q ''lon'' = None \<Longrightarrow>
   soil_handler h mock_res q w
     = (Inl (Exception ''Cannot read properties of undefined (reading json)''),
        w\<lparr>statusCode := 500\<rparr>)"
  by (auto simp: soil_handler_def try_catch_def status_json_def mock_res_def falsy_param_def)

text \<open>
  Claim C9, as stated: whenever \<^verbatim>\<open>lat\<close> and \<^verbatim>\<open>lon\<close> are present and the API key is
  unset, the weather handler answers 500. A parameter that is present and empty
  (\<^verbatim>\<open>/weather?lat=&lon=1\<close>) is taken as missing: the answer is 400.
\<close>

theorem weather_empty_lat_is_400:
  "weather_handler offline express_res [''lat'' \<mapsto> [], ''lon'' \<mapsto> ''1''] initial_world
     = (Inr (), \<lparr>statusCode = 400,
          responseData = Stringified (JObj [(''error'', JStr ''Missing lat/lon'')]),
          resHeaders = [], fetches = []\<rparr>)
   \<and> API_KEY offline = None"
  by (simp add: weather_handler_def try_catch_def status_json_def express_res_def falsy_param_def
        error_obj_def initial_world_def offline_def)

text \<open>
  Claim C9, amended: when \<^verbatim>\<open>lat\<close> and \<^verbatim>\<open>lon\<close> are present and not empty and the API key
  is unset, the weather handler answers with status 500 and
  \<^verbatim>\<open>{"error":"OpenWeather API key not configured"}\<close>, and makes no outbound call.
\<close>

theorem weather_without_key:
  assumes "q ''lat'' = Some lat" and "lat \<noteq> []" and "q ''lon'' = Some lon" and "lon \<noteq> []"
    and "API_KEY h = None"
  shows "weather_handler h express_res q w
           = (Inr (), w\<lparr>statusCode := 500,
                responseData :=
                  Stringified (JObj [(''error'', JStr ''OpenWeather API key not configured'')])\<rparr>)
         \<and> fetches (snd (weather_handler h express_res q w)) = fetches w"
  using assms
  by (simp add: weather_handler_def try_catch_def status_json_def express_res_def falsy_param_def
        error_obj_def)

theorem weather_without_key_witness:
  "weather_handler offline express_res [''lat'' \<mapsto> ''10'', ''lon'' \<mapsto> ''20''] initial_world
     = (Inr (), \<lparr>statusCode = 500,
          responseData =
            Stringified (JObj [(''error'', JStr ''OpenWeather API key not configured'')]),
          resHeaders = [], fetches = []\<rparr>)
   \<and> fetches (snd (weather_handler offline express_res [''lat'' \<mapsto> ''10'', ''lon'' \<mapsto> ''20'']
                      initial_world)) = []"
  using weather_without_key [of "[''lat'' \<mapsto> ''10'', ''lon'' \<mapsto> ''20'']" "''10''" "''20''"
          offline initial_world]
  by (simp add: initial_world_def offline_def)

subsection \<open>Soil\<close>

text \<open>
  The first value of a layer with a mean at its first depth is the mean rounded to two
  decimals, and \<^verbatim>\<open>x || d\<close> takes the default for every number that is zero or \<^verbatim>\<open>NaN\<close>.
\<close>

lemma firstVal_of_mean:
  "firstVal (JObj [(''name'', JStr name),
                   (''depths'', JArr [JObj [(''values'', JObj [(''mean'', JNum n)])]])])
     = Inr (JNum (to_fixed_number 2 n))"
  by (simp add: firstVal_def then_do_def read_prop_def nullish_def index_at_def opt_prop_def)

lemma default_of_number:
  "or_else (JNum n) (JNum d) = JNum (if num_truthy n then n else d)"
  by (simp add: or_else_def)

text \<open>
  Claim C6. On the primary path \<^verbatim>\<open>ph\<close> is to be the first depth's mean of the layer
  \<^verbatim>\<open>phh2o\<close> whenever that value is present, also when it is 0, and 6.5 only when it is
  absent. With the mean present and equal to 0 the handler answers \<^verbatim>\<open>ph\<close> 6.5.
\<close>

theorem soil_mean_zero_gives_default:
  "soil_handler (offline\<lparr>fetch := (\<lambda>rq. Response 200 (Some (ph_document 0)))\<rparr>) express_res
     [''lat'' \<mapsto> ''10'', ''lon'' \<mapsto> ''20''] initial_world
   = (Inr (), \<lparr>statusCode = 200,
        responseData = Stringified (JObj [(''ph'', JNum (Fin (65 / 10))),
                                          (''nitrogen'', JNum (Fin (15 / 100))),
                                          (''organic_matter'', JNum (Fin (2586 / 1000))),
                                          (''source'', JStr ''soilgrids'')]),
        resHeaders = [],
        fetches = [SoilGrids ''10'' ''20'']\<rparr>)"
  by (simp add: handler_defs soil_defs offline_def ph_document_def express_res_def
        initial_world_def)

text \<open>A mean that is present and not zero after rounding is passed on.\<close>

lemma soil_mean_seven:
  "soil_values (ph_document 7)
   = Inr (JObj [(''ph'', JNum (Fin 7)),
                (''nitrogen'', JNum (Fin (15 / 100))),
                (''organic_matter'', JNum (Fin (2586 / 1000))),
                (''source'', JStr ''soilgrids'')])"
  by (simp add: soil_defs ph_document_def)

text \<open>
  Claim C7. The fallback is deterministic and does not fail: whenever the inner
  \<^verbatim>\<open>try\<close> block throws, for whatever reason, the handler completes, makes no further
  outbound call, and sends the object computed from \<^verbatim>\<open>lat\<close> and \<^verbatim>\<open>lon\<close> alone. Two
  invocations with the same \<^verbatim>\<open>lat\<close> and \<^verbatim>\<open>lon\<close> on hosts that differ in everything else
  give the same answer.
\<close>

theorem soil_fallback_deterministic:
  assumes "\<not> falsy_param (q ''lat'')" and "\<not> falsy_param (q ''lon'')"
    and "primary_fails (fetch h1 (SoilGrids (param_text (q ''lat'')) (param_text (q ''lon''))))"
    and "primary_fails (fetch h2 (SoilGrids (param_text (q ''lat'')) (param_text (q ''lon''))))"
  shows "soil_handler h1 res q w = soil_handler h2 res q w
       \<and> soil_handler h1 res q w
           = (Inr (), json_fn res (soil_mock (param_text (q ''lat'')) (param_text (q ''lon'')))
                        (w\<lparr>fetches := fetches w @ [SoilGrids (param_text (q ''lat''))
                                                             (param_text (q ''lon''))]\<rparr>))"
proof -
  have "soil_handler h res q w
           = (Inr (), json_fn res (soil_mock (param_text (q ''lat'')) (param_text (q ''lon'')))
                        (w\<lparr>fetches := fetches w @ [SoilGrids (param_text (q ''lat''))
                                                             (param_text (q ''lon''))]\<rparr>))"
    if "primary_fails (fetch h (SoilGrids (param_text (q ''lat'')) (param_text (q ''lon''))))" for h
    using that assms(1,2)
    by (auto simp: soil_handler_def try_catch_def json_only_def fetch_json_def primary_fails_def
                   Let_def
             split: fetched.splits option.splits sum.splits)
  then show ?thesis using assms(3,4) by simp
qed

theorem soil_fallback_deterministic_witness:
  "soil_handler offline express_res [''lat'' \<mapsto> ''10'', ''lon'' \<mapsto> ''20''] initial_world
     = soil_handler (offline\<lparr>fetch := (\<lambda>rq. Response 503 None), API_KEY := Some ''k''\<rparr>) express_res
         [''lat'' \<mapsto> ''10'', ''lon'' \<mapsto> ''20''] initial_world
   \<and> soil_handler offline express_res [''lat'' \<mapsto> ''10'', ''lon'' \<mapsto> ''20''] initial_world
     = (Inr (), \<lparr>statusCode = 200, responseData = Stringified (soil_mock ''10'' ''20''),
                 resHeaders = [], fetches = [SoilGrids ''10'' ''20'']\<rparr>)"
proof -
  let ?q = "[''lat'' \<mapsto> ''10'', ''lon'' \<mapsto> ''20'']"
  let ?h = "offline\<lparr>fetch := (\<lambda>rq. Response 503 None), API_KEY := Some ''k''\<rparr>"
  have a: "\<not> falsy_param (?q ''lat'')" and b: "\<not> falsy_param (?q ''lon'')"
    by (simp_all add: falsy_param_def)
  have c: "primary_fails (fetch offline (SoilGrids (param_text (?q ''lat'')) (param_text (?q ''lon''))))"
    by (simp add: primary_fails_def offline_def)
  have d: "primary_fails (fetch ?h (SoilGrids (param_text (?q ''lat'')) (param_text (?q ''lon''))))"
    by (simp add: primary_fails_def)
  note t = soil_fallback_deterministic [OF a b c d, of express_res initial_world]
  have v: "json_fn express_res (soil_mock ''10'' ''20'')
             (initial_world\<lparr>fetches := fetches initial_world @ [SoilGrids ''10'' ''20'']\<rparr>)
           = \<lparr>statusCode = 200, responseData = Stringified (soil_mock ''10'' ''20''),
              resHeaders = [], fetches = [SoilGrids ''10'' ''20'']\<rparr>"
    by (simp add: express_res_def initial_world_def)
  have p: "param_text (?q ''lat'') = ''10''" "param_text (?q ''lon'') = ''20''"
    by (simp_all add: param_text_def)
  from t show ?thesis unfolding p v by blast
qed

text \<open>
  A parameter that is not a numeric literal reaches the fallback as well (the guard asks
  for a non-empty string only): its product is \<^verbatim>\<open>NaN\<close>, and so are the three values, which
  lie in no range. So does a product beyond the range of the number format.
\<close>

lemma soil_mock_not_a_number:
  "soil_mock ''abc'' ''1''
     = JObj [(''ph'', JNum NaN), (''nitrogen'', JNum NaN), (''organic_matter'', JNum NaN),
             (''source'', JStr ''mock'')]
   \<and> \<not> in_range (55 / 10) (85 / 10) (num_field (soil_mock ''abc'' ''1'') ''ph'')"
  by (simp add: soil_mock_def mock_hash_def str_defs js_mul_def js_sin_def js_abs_def js_rem_def
        js_add_def js_div_def in_range_def num_field_def)

lemma soil_mock_overflow:
  "soil_mock ''1e200'' ''1e200''
     = JObj [(''ph'', JNum NaN), (''nitrogen'', JNum NaN), (''organic_matter'', JNum NaN),
             (''source'', JStr ''mock'')]"
proof -
  have "string_to_number ''1e200'' = Fin (10 ^ 200)"
    by (simp add: str_defs)
  then show ?thesis
    by (simp add: soil_mock_def mock_hash_def js_mul_def js_sin_def js_abs_def js_rem_def
          js_add_def js_div_def fin_def overflow_at_def)
qed

subsection \<open>Rain history\<close>

lemmas rain_defs = rain_result_def daily_of_def precip_of_def then_do_def or_else_def opt_prop_def
  nullish_def index_at_def contribution_def to_number_def num_truthy_def js_add_def
  to_fixed_number_def monthNames_def es_month_of_def parse_date_only_def digits_def digit_value_def
  days_in_month_def leap_year_def january_series_def archive_document_def report_def
  fin_def overflow_at_def

lemma replicate12: "replicate 12 x = [x, x, x, x, x, x, x, x, x, x, x, x]"
  by (simp add: numeral_eq_Suc)

lemma list_update_Cons_numeral: "(x # xs)[numeral k := y] = x # xs[pred_numeral k := y]"
  by (simp add: numeral_eq_Suc)

lemma floor_int_half: "\<lfloor>real_of_int k + 1 / 2\<rfloor> = k"
  by linarith

lemma round_fixed_point:
  fixes k :: int
  shows "real_of_int \<lfloor>real_of_int k / 10 ^ f * 10 ^ f + 1 / 2\<rfloor> / 10 ^ f = real_of_int k / 10 ^ f"
proof -
  have "real_of_int k / 10 ^ f * 10 ^ f = real_of_int k" by simp
  then show ?thesis by (simp add: floor_int_half)
qed

text \<open>A number that \<^verbatim>\<open>toFixed\<close> has rounded is left as it is by rounding it again.\<close>

lemma to_fixed_number_idem: "to_fixed_number f (to_fixed_number f n) = to_fixed_number f n"
proof (cases n)
  case (Fin x)
  show ?thesis
  proof (cases "\<bar>x\<bar> \<ge> 10 ^ 21")
    case True
    then show ?thesis using Fin by (simp add: to_fixed_number_def)
  next
    case small: False
    show ?thesis
    proof (cases "x < 0")
      case True
      define k where "k = \<lfloor>(- x) * 10 ^ f + 1 / 2\<rfloor>"
      have "0 \<le> (- x) * 10 ^ f" using True by (intro mult_nonneg_nonneg) simp_all
      then have k0: "0 \<le> k" unfolding k_def by linarith
      have r: "to_fixed_number f n = Fin (- (real_of_int k / 10 ^ f))"
        using Fin small True by (simp add: to_fixed_number_def k_def)
      show ?thesis
      proof (cases "k = 0")
        case True
        then show ?thesis using r by (simp add: to_fixed_number_def)
      next
        case False
        then have "0 < real_of_int k / 10 ^ f" using k0 by (intro divide_pos_pos) simp_all
        then have neg: "- (real_of_int k / 10 ^ f) < 0" by simp
        show ?thesis
          unfolding r using neg round_fixed_point [of k f]
          by (simp add: to_fixed_number_def)
      qed
    next
      case False
      define k where "k = \<lfloor>x * 10 ^ f + 1 / 2\<rfloor>"
      have "0 \<le> x * 10 ^ f" using False by (intro mult_nonneg_nonneg) simp_all
      then have k0: "0 \<le> k" unfolding k_def by linarith
      have r: "to_fixed_number f n = Fin (real_of_int k / 10 ^ f)"
        using Fin small False by (simp add: to_fixed_number_def k_def)
      have "0 \<le> real_of_int k / 10 ^ f" using k0 by (intro divide_nonneg_pos) simp_all
      then have nn: "\<not> real_of_int k / 10 ^ f < 0" by (simp add: not_less)
      show ?thesis
        unfolding r using nn round_fixed_point [of k f]
        by (simp add: to_fixed_number_def)
    qed
  qed
qed (simp_all add: to_fixed_number_def)

lemma to_fixed_number_nonneg: "nonneg n \<Longrightarrow> nonneg (to_fixed_number f n)"
  by (cases n) (auto simp: nonneg_def to_fixed_number_def not_less)

lemma overflow_at_positive: "0 < overflow_at"
  by (simp add: overflow_at_def)

lemma fin_nonneg: "0 \<le> x \<Longrightarrow> nonneg (fin x)"
  using overflow_at_positive by (auto simp: fin_def nonneg_def)

lemma js_add_nonneg: "nonneg a \<Longrightarrow> nonneg b \<Longrightarrow> nonneg (js_add a b)"
  by (cases a; cases b) (auto simp: nonneg_def js_add_def intro: fin_nonneg [unfolded nonneg_def])

lemma add_days_length:
  "add_days mo ts vals i monthly = Inr r \<Longrightarrow> length r = length monthly"
proof (induction vals arbitrary: i monthly)
  case Nil
  then show ?case by simp
next
  case (Cons v vals)
  then show ?case
    by (auto split: sum.splits option.splits if_splits)
qed

lemma contribution_nonneg:
  assumes "\<forall>n. to_number v = Inr n \<longrightarrow> \<not> negative n"
    and "contribution v = Inr c"
  shows "nonneg c"
  using assms
  by (cases "to_number v")
     (auto simp: contribution_def then_do_def nonneg_def negative_def num_truthy_def not_less
           split: jsnum.splits if_splits)

lemma add_days_nonneg:
  assumes "add_days mo ts vals i monthly = Inr r"
    and "\<forall>v\<in>set vals. \<forall>n. to_number v = Inr n \<longrightarrow> \<not> negative n"
    and "\<forall>a\<in>set monthly. nonneg a"
  shows "\<forall>a\<in>set r. nonneg a"
  using assms
proof (induction vals arbitrary: i monthly)
  case Nil
  then show ?case by simp
next
  case (Cons v vals)
  from Cons.prems(1) obtain t where t: "index_at ts i = Inr t" and nt: "\<not> to_string_throws t"
    by (auto split: sum.splits if_splits)
  show ?case
  proof (cases "mo t")
    case None
    then have "add_days mo ts vals (Suc i) monthly = Inr r"
      using Cons.prems(1) t nt by simp
    then show ?thesis using Cons.IH Cons.prems(2,3) by auto
  next
    case (Some m)
    from Cons.prems(1) t nt Some obtain c where c: "contribution v = Inr c"
      by (auto split: sum.splits)
    have cn: "nonneg c" using contribution_nonneg [OF _ c] Cons.prems(2) by simp
    let ?monthly' = "if m < length monthly then monthly[m := js_add (monthly ! m) c] else monthly"
    have rec: "add_days mo ts vals (Suc i) ?monthly' = Inr r"
      using Cons.prems(1) t nt Some c by simp
    have inv: "\<forall>a\<in>set ?monthly'. nonneg a"
    proof (cases "m < length monthly")
      case True
      then have "nonneg (js_add (monthly ! m) c)"
        using Cons.prems(3) cn by (simp add: js_add_nonneg)
      then show ?thesis using True Cons.prems(3)
        by (auto dest!: set_update_subset_insert [THEN subsetD])
    next
      case False
      then show ?thesis using Cons.prems(3) by simp
    qed
    show ?thesis using Cons.IH [OF rec _ inv] Cons.prems(2) by simp
  qed
qed

lemma rain_result_shape:
  assumes "rain_result mo data = Inr result"
  obtains monthly where "length monthly = 12"
    and "add_days mo (get_prop (daily_of data) ''time'') (precip_values data) 0 (replicate 12 (Fin 0))
           = Inr monthly"
    and "result = JArr (map (\<lambda>(i, name). JObj [(''month'', JStr name),
                                    (''rainfall'', JNum (to_fixed_number 1 (monthly ! i)))])
                            (enumerate 0 monthNames))"
proof -
  from assms obtain vals where v: "precip_of data = JArr vals"
    by (auto simp: rain_result_def split: jsval.splits)
  from assms v obtain monthly where
    m: "add_days mo (get_prop (daily_of data) ''time'') vals 0 (replicate 12 (Fin 0)) = Inr monthly"
    and r: "result = JArr (map (\<lambda>(i, name). JObj [(''month'', JStr name),
                                    (''rainfall'', JNum (to_fixed_number 1 (monthly ! i)))])
                            (enumerate 0 monthNames))"
    by (auto simp: rain_result_def then_do_def split: sum.splits)
  have "length monthly = 12" using add_days_length [OF m] by simp
  then show ?thesis using that m r v by (simp add: precip_values_def)
qed

text \<open>
  Whatever the upstream document: when the aggregation succeeds, its result has the
  twelve months in their order, each rainfall rounded, and no rainfall is negative
  unless an upstream value converts to a negative number.
\<close>

lemma rain_result_properties:
  assumes "rain_result mo data = Inr result"
  shows "\<exists>rs. result = JArr rs \<and> length rs = 12
           \<and> map (\<lambda>r. get_prop r ''month'') rs
               = map JStr [''Jan'', ''Feb'', ''Mar'', ''Apr'', ''May'', ''Jun'',
                           ''Jul'', ''Aug'', ''Sep'', ''Oct'', ''Nov'', ''Dec'']
           \<and> (\<forall>r\<in>set rs. to_fixed_number 1 (num_field r ''rainfall'') = num_field r ''rainfall'')
           \<and> ((\<forall>v\<in>set (precip_values data). \<forall>n. to_number v = Inr n \<longrightarrow> \<not> negative n)
                \<longrightarrow> (\<forall>r\<in>set rs. nonneg (num_field r ''rainfall'')))"
proof -
  from assms obtain monthly where len: "length monthly = 12"
    and m: "add_days mo (get_prop (daily_of data) ''time'') (precip_values data) 0
              (replicate 12 (Fin 0)) = Inr monthly"
    and r: "result = JArr (map (\<lambda>(i, name). JObj [(''month'', JStr name),
                                    (''rainfall'', JNum (to_fixed_number 1 (monthly ! i)))])
                            (enumerate 0 monthNames))"
    by (rule rain_result_shape)
  let ?rs = "map (\<lambda>(i, name). JObj [(''month'', JStr name),
                                    (''rainfall'', JNum (to_fixed_number 1 (monthly ! i)))])
                 (enumerate 0 monthNames)"
  have l: "length ?rs = 12" by (simp add: monthNames_def)
  have names: "map (\<lambda>r. get_prop r ''month'') ?rs
               = map JStr [''Jan'', ''Feb'', ''Mar'', ''Apr'', ''May'', ''Jun'',
                           ''Jul'', ''Aug'', ''Sep'', ''Oct'', ''Nov'', ''Dec'']"
    by (simp add: monthNames_def)
  have elem: "\<exists>i<12. num_field x ''rainfall'' = to_fixed_number 1 (monthly ! i)"
    if "x \<in> set ?rs" for x
  proof -
    from that obtain i name where "(i, name) \<in> set (enumerate 0 monthNames)"
      and x: "x = JObj [(''month'', JStr name),
                        (''rainfall'', JNum (to_fixed_number 1 (monthly ! i)))]"
      by auto
    then have "i < 12" by (auto simp: in_set_enumerate_eq monthNames_def)
    then show ?thesis using x by (auto simp: num_field_def)
  qed
  have fixed: "\<forall>x\<in>set ?rs. to_fixed_number 1 (num_field x ''rainfall'') = num_field x ''rainfall''"
  proof
    fix x assume "x \<in> set ?rs"
    then obtain i where "num_field x ''rainfall'' = to_fixed_number 1 (monthly ! i)"
      using elem by blast
    then show "to_fixed_number 1 (num_field x ''rainfall'') = num_field x ''rainfall''"
      by (simp only: to_fixed_number_idem)
  qed
  have pos: "\<forall>x\<in>set ?rs. nonneg (num_field x ''rainfall'')"
    if h: "\<forall>v\<in>set (precip_values data). \<forall>n. to_number v = Inr n \<longrightarrow> \<not> negative n"
  proof -
    have "\<forall>a\<in>set monthly. nonneg a"
      by (rule add_days_nonneg [OF m h]) (simp add: nonneg_def)
    then have nn: "nonneg (monthly ! i)" if "i < 12" for i using that len by simp
    show ?thesis
    proof
      fix x assume "x \<in> set ?rs"
      then obtain i where "i < 12"
        and "num_field x ''rainfall'' = to_fixed_number 1 (monthly ! i)"
        using elem by blast
      then show "nonneg (num_field x ''rainfall'')"
        using nn [of i] by (simp only: to_fixed_number_nonneg)
    qed
  qed
  show ?thesis using r l names fixed pos by blast
qed

text \<open>
  An answer of the archive service does not make the aggregation throw, however many
  days it has and whether or not its dates can be read.
\<close>

lemma reading_contribution: "reading v \<Longrightarrow> \<exists>n. contribution v = Inr n"
  by (cases v) (simp_all add: reading_def contribution_def then_do_def to_number_def)

lemma add_days_on_archive:
  assumes "list_all reading vals"
  shows "\<exists>r. add_days mo (JArr (map JStr dates)) vals i monthly = Inr r"
  using assms
proof (induction vals arbitrary: i monthly)
  case Nil
  then show ?case by simp
next
  case (Cons v vals)
  obtain t where t: "index_at (JArr (map JStr dates)) i = Inr t" and nt: "\<not> to_string_throws t"
    by (cases "i < length dates") (simp_all add: index_at_def)
  from Cons.prems obtain n where n: "contribution v = Inr n"
    using reading_contribution by auto
  from Cons.prems have rest: "list_all reading vals" by simp
  show ?case
  proof (cases "mo t")
    case None
    then show ?thesis using t nt Cons.IH [OF rest] by simp
  next
    case (Some m)
    then show ?thesis using t nt n Cons.IH [OF rest] by simp
  qed
qed

lemma rain_result_on_archive:
  assumes "list_all reading vals"
  shows "\<exists>result. rain_result mo (archive_document dates vals) = Inr result"
proof -
  obtain r where "add_days mo (JArr (map JStr dates)) vals 0 (replicate 12 (Fin 0)) = Inr r"
    using add_days_on_archive [OF assms] by blast
  then show ?thesis
    by (simp add: rain_result_def precip_of_def daily_of_def archive_document_def or_else_def
          opt_prop_def nullish_def then_do_def)
qed

text \<open>
  The handler sends what \<open>rain_result\<close> computes from the upstream document, with the
  status left as it is.
\<close>

lemma rain_history_success:
  assumes "\<not> falsy_param (q ''lat'')" and "\<not> falsy_param (q ''lon'')"
    and "fetch h (OpenMeteoArchive (param_text (q ''lat'')) (param_text (q ''lon'')))
           = Response st (Some data)"
    and "200 \<le> st" and "st \<le> 299"
    and "rain_result (month_of h) data = Inr result"
  shows "rain_history_handler h express_res q w
           = (Inr (), w\<lparr>responseData := Stringified result,
                         fetches := fetches w @ [OpenMeteoArchive (param_text (q ''lat''))
                                                                  (param_text (q ''lon''))]\<rparr>)"
  using assms
  by (simp add: rain_history_handler_def try_catch_def fetch_json_def json_only_def
        express_res_def Let_def)

text \<open>An empty year gives twelve zeros, and so does an answer without daily values.\<close>

lemma empty_year:
  "rain_result mo (archive_document [] []) = Inr (report [0, 0, 0, 0, 0, 0, 0, 0, 0, 0, 0, 0])"
  by (simp add: rain_defs replicate12)

lemma no_daily_values:
  "rain_result mo (JObj []) = Inr (report [0, 0, 0, 0, 0, 0, 0, 0, 0, 0, 0, 0])"
  "rain_result mo (JObj [(''daily'', JObj [])]) = Inr (report [0, 0, 0, 0, 0, 0, 0, 0, 0, 0, 0, 0])"
  "rain_result mo JNull = Inr (report [0, 0, 0, 0, 0, 0, 0, 0, 0, 0, 0, 0])"
  by (simp_all add: rain_defs replicate12)

text \<open>
  Claim C4, as stated: every successful rain-history output has twelve values that are
  not negative. The handler adds up what the upstream sends: a negative upstream value
  gives a negative rainfall.
\<close>

theorem rain_history_negative_value:
  "rain_result (month_of archive_host) (archive_document [''2023-06-10''] [JNum (Fin (- 5))])
     = Inr (report [0, 0, 0, 0, 0, - 5, 0, 0, 0, 0, 0, 0])
   \<and> \<not> nonneg (Fin (- 5))"
  by (simp add: archive_host_def rain_defs replicate12 list_update_Cons_numeral nonneg_def)

text \<open>
  Claim C4, amended. For every upstream document, every successful rain-history output
  is a sequence of exactly twelve entries whose month labels are Jan to Dec in this
  order, each rainfall rounded to one decimal (rounding it again changes nothing), and
  each rainfall is at least 0 provided that no upstream precipitation value converts to
  a negative number. And partial or empty years do not error: for an answer of the
  archive service with any number of days, dates of any text and readings that are
  numbers or \<^verbatim>\<open>null\<close>, the aggregation succeeds and the handler sends its result, with the
  status left as it is.
\<close>

theorem rain_history_output:
  "(rain_result mo data = Inr result \<longrightarrow>
      (\<exists>rs. result = JArr rs \<and> length rs = 12
           \<and> map (\<lambda>r. get_prop r ''month'') rs
               = map JStr [''Jan'', ''Feb'', ''Mar'', ''Apr'', ''May'', ''Jun'',
                           ''Jul'', ''Aug'', ''Sep'', ''Oct'', ''Nov'', ''Dec'']
           \<and> (\<forall>r\<in>set rs. to_fixed_number 1 (num_field r ''rainfall'') = num_field r ''rainfall'')
           \<and> ((\<forall>v\<in>set (precip_values data). \<forall>n. to_number v = Inr n \<longrightarrow> \<not> negative n)
                \<longrightarrow> (\<forall>r\<in>set rs. nonneg (num_field r ''rainfall'')))))
   \<and> (\<not> falsy_param (q ''lat'') \<and> \<not> falsy_param (q ''lon'')
      \<and> fetch h (OpenMeteoArchive (param_text (q ''lat'')) (param_text (q ''lon'')))
            = Response st (Some (archive_document dates vals))
      \<and> 200 \<le> st \<and> st \<le> 299 \<and> list_all reading vals \<longrightarrow>
      (\<exists>out. rain_result (month_of h) (archive_document dates vals) = Inr out
           \<and> rain_history_handler h express_res q w
               = (Inr (), w\<lparr>responseData := Stringified out,
                             fetches := fetches w @ [OpenMeteoArchive (param_text (q ''lat''))
                                                                      (param_text (q ''lon''))]\<rparr>)))"
proof (intro conjI impI)
  assume "rain_result mo data = Inr result"
  then show "\<exists>rs. result = JArr rs \<and> length rs = 12
           \<and> map (\<lambda>r. get_prop r ''month'') rs
               = map JStr [''Jan'', ''Feb'', ''Mar'', ''Apr'', ''May'', ''Jun'',
                           ''Jul'', ''Aug'', ''Sep'', ''Oct'', ''Nov'', ''Dec'']
           \<and> (\<forall>r\<in>set rs. to_fixed_number 1 (num_field r ''rainfall'') = num_field r ''rainfall'')
           \<and> ((\<forall>v\<in>set (precip_values data). \<forall>n. to_number v = Inr n \<longrightarrow> \<not> negative n)
                \<longrightarrow> (\<forall>r\<in>set rs. nonneg (num_field r ''rainfall'')))"
    by (rule rain_result_properties)
next
  assume a: "\<not> falsy_param (q ''lat'') \<and> \<not> falsy_param (q ''lon'')
      \<and> fetch h (OpenMeteoArchive (param_text (q ''lat'')) (param_text (q ''lon'')))
            = Response st (Some (archive_document dates vals))
      \<and> 200 \<le> st \<and> st \<le> 299 \<and> list_all reading vals"
  then obtain out where out: "rain_result (month_of h) (archive_document dates vals) = Inr out"
    using rain_result_on_archive by blast
  have "rain_history_handler h express_res q w
               = (Inr (), w\<lparr>responseData := Stringified out,
                             fetches := fetches w @ [OpenMeteoArchive (param_text (q ''lat''))
                                                                      (param_text (q ''lon''))]\<rparr>)"
    by (rule rain_history_success) (use a out in blast)+
  then show "\<exists>out. rain_result (month_of h) (archive_document dates vals) = Inr out
           \<and> rain_history_handler h express_res q w
               = (Inr (), w\<lparr>responseData := Stringified out,
                             fetches := fetches w @ [OpenMeteoArchive (param_text (q ''lat''))
                                                                      (param_text (q ''lon''))]\<rparr>)"
    using out by blast
qed

theorem rain_history_output_witness:
  "rain_result (es_month_of (\<lambda>day. 0) (\<lambda>v. None)) january_series
     = Inr (report [8, 0, 0, 0, 0, 0, 0, 0, 0, 0, 0, 0])
   \<and> (\<exists>rs. report [8, 0, 0, 0, 0, 0, 0, 0, 0, 0, 0, 0] = JArr rs \<and> length rs = 12
         \<and> map (\<lambda>r. get_prop r ''month'') rs
             = map JStr [''Jan'', ''Feb'', ''Mar'', ''Apr'', ''May'', ''Jun'',
                         ''Jul'', ''Aug'', ''Sep'', ''Oct'', ''Nov'', ''Dec'']
         \<and> (\<forall>r\<in>set rs. to_fixed_number 1 (num_field r ''rainfall'') = num_field r ''rainfall'')
         \<and> (\<forall>r\<in>set rs. nonneg (num_field r ''rainfall'')))
   \<and> rain_history_handler archive_host express_res [''lat'' \<mapsto> ''10'', ''lon'' \<mapsto> ''20'']
         initial_world
       = (Inr (), \<lparr>statusCode = 200,
            responseData = Stringified (report [8, 0, 0, 0, 0, 0, 0, 0, 0, 0, 0, 0]),
            resHeaders = [], fetches = [OpenMeteoArchive ''10'' ''20'']\<rparr>)"
proof -
  let ?mo = "es_month_of (\<lambda>day. 0) (\<lambda>v. None)"
  let ?q = "[''lat'' \<mapsto> ''10'', ''lon'' \<mapsto> ''20'']"
  let ?dates = "[''2023-01-01'', ''2023-01-15'']"
  let ?vals = "[JNum (Fin 5), JNum (Fin 3)]"
  have doc: "archive_document ?dates ?vals = january_series"
    by (simp add: archive_document_def january_series_def)
  have e: "rain_result ?mo january_series = Inr (report [8, 0, 0, 0, 0, 0, 0, 0, 0, 0, 0, 0])"
    by (simp add: rain_defs replicate12 list_update_Cons_numeral)
  have pre: "\<forall>v\<in>set (precip_values january_series). \<forall>n. to_number v = Inr n \<longrightarrow> \<not> negative n"
    by (simp add: precip_values_def precip_of_def daily_of_def or_else_def opt_prop_def
          nullish_def january_series_def to_number_def negative_def)
  have hyp: "\<not> falsy_param (?q ''lat'') \<and> \<not> falsy_param (?q ''lon'')
      \<and> fetch archive_host (OpenMeteoArchive (param_text (?q ''lat'')) (param_text (?q ''lon'')))
            = Response 200 (Some (archive_document ?dates ?vals))
      \<and> (200::nat) \<le> 200 \<and> (200::nat) \<le> 299 \<and> list_all reading ?vals"
    by (simp add: falsy_param_def archive_host_def reading_def)
  have mo: "month_of archive_host = ?mo"
    by (simp add: archive_host_def)
  have texts: "param_text (?q ''lat'') = ''10''" "param_text (?q ''lon'') = ''20''"
    by (simp_all add: param_text_def)
  note t = rain_history_output [where mo = ?mo and data = january_series
      and result = "report [8, 0, 0, 0, 0, 0, 0, 0, 0, 0, 0, 0]"
      and q = ?q and h = archive_host and st = 200 and dates = ?dates and vals = ?vals
      and w = initial_world]
  have first: "\<exists>rs. report [8, 0, 0, 0, 0, 0, 0, 0, 0, 0, 0, 0] = JArr rs \<and> length rs = 12
         \<and> map (\<lambda>r. get_prop r ''month'') rs
             = map JStr [''Jan'', ''Feb'', ''Mar'', ''Apr'', ''May'', ''Jun'',
                         ''Jul'', ''Aug'', ''Sep'', ''Oct'', ''Nov'', ''Dec'']
         \<and> (\<forall>r\<in>set rs. to_fixed_number 1 (num_field r ''rainfall'') = num_field r ''rainfall'')
         \<and> (\<forall>r\<in>set rs. nonneg (num_field r ''rainfall''))"
    using t [THEN conjunct1] e pre by blast
  from t [THEN conjunct2] hyp obtain out where
    o: "rain_result (month_of archive_host) (archive_document ?dates ?vals) = Inr out"
    and s: "rain_history_handler archive_host express_res ?q initial_world
       = (Inr (), initial_world\<lparr>responseData := Stringified out,
            fetches := fetches initial_world
               @ [OpenMeteoArchive (param_text (?q ''lat'')) (param_text (?q ''lon''))]\<rparr>)"
    by blast
  from o have "out = report [8, 0, 0, 0, 0, 0, 0, 0, 0, 0, 0, 0]"
    unfolding mo doc e by simp
  with s have second: "rain_history_handler archive_host express_res ?q initial_world
       = (Inr (), \<lparr>statusCode = 200,
            responseData = Stringified (report [8, 0, 0, 0, 0, 0, 0, 0, 0, 0, 0, 0]),
            resHeaders = [], fetches = [OpenMeteoArchive ''10'' ''20'']\<rparr>)"
    unfolding texts by (simp add: initial_world_def)
  show ?thesis using e first second by blast
qed

text \<open>
  A missing value and a value that is not numeric count as zero. (A value that converts
  to a number counts as that number: \<^verbatim>\<open>true\<close> counts as 1.)
\<close>

lemma contribution_examples:
  "contribution JNull = Inr (Fin 0)"
  "contribution JUndefined = Inr (Fin 0)"
  "contribution (JStr ''n/a'') = Inr (Fin 0)"
  "contribution (JObj []) = Inr (Fin 0)"
  "contribution (JStr ''2.5'') = Inr (Fin (5 / 2))"
  "contribution (JBool True) = Inr (Fin 1)"
  by (simp_all add: contribution_def then_do_def to_number_def num_truthy_def str_defs)

text \<open>
  A partial year: a day whose date cannot be read and a day that has no date are left
  out, and a day without a reading adds nothing.
\<close>

lemma partial_year:
  "rain_result (es_month_of (\<lambda>day. 0) (\<lambda>v. None))
       (archive_document [''2023-02-30'', ''2023-03-05'', ''2023-03-06'']
                         [JNum (Fin 4), JNum (Fin 2), JNull, JNum (Fin 7)])
     = Inr (report [0, 0, 2, 0, 0, 0, 0, 0, 0, 0, 0, 0])"
  by (simp add: rain_defs replicate12 list_update_Cons_numeral)

text \<open>
  With the local time of the process at UTC or ahead of it on the first of January,
  the two days of the example are both counted in January.
\<close>

lemma january_series_ahead_of_utc:
  "0 \<le> tz (2023, 1, 1) \<Longrightarrow>
   rain_result (es_month_of tz other) january_series
     = Inr (report [8, 0, 0, 0, 0, 0, 0, 0, 0, 0, 0, 0])"
  by (simp add: rain_defs replicate12 list_update_Cons_numeral)

text \<open>
  Claim C5. Each day's precipitation is to be added to the month of that day, so that
  the series of 5 on 2023-01-01 and 3 on 2023-01-15 gives 8.0 for Jan and 0.0 for every
  other month. The handler takes the month from \<^verbatim>\<open>getMonth()\<close>, in the local time of the
  process, of a date that was read as midnight UTC. With the local time behind UTC (here
  by five hours) the first of January is counted in December: Jan is 3 and Dec is 5.
\<close>

theorem january_series_behind_utc:
  "rain_result (es_month_of (\<lambda>day. - 300) other) january_series
     = Inr (report [3, 0, 0, 0, 0, 0, 0, 0, 0, 0, 0, 5])"
  by (simp add: rain_defs replicate12 list_update_Cons_numeral)

end
